theory Spec2Isabelle
  imports Complex_Main
begin

section \<open>Python exceptions and the progress tracker\<close>

text \<open>
  The module \<^verbatim>\<open>snowdroughtindex/core/data_preparation.py\<close> is a sequence of short
  functions over pandas, xarray and geopandas objects. Every exception the source can
  raise is a value of \<open>error\<close>; a function that may raise returns \<open>error + 'a\<close>
  with \<open>Inl\<close> for the exception. The payload is the exception's message.
\<close>

datatype error =
    KeyError string
  | IndexError string
  | ValueError string
  | TypeError string
  | RuntimeError string

text \<open>Python's \<^verbatim>\<open>str(e)\<close>: a \<^verbatim>\<open>KeyError\<close> prints the repr of its key, the others
  their message.\<close>

fun str_of_error :: "error \<Rightarrow> string" where
  "str_of_error (KeyError k) = [CHR 0x27] @ k @ [CHR 0x27]"
| "str_of_error (IndexError m) = m"
| "str_of_error (ValueError m) = m"
| "str_of_error (TypeError m) = m"
| "str_of_error (RuntimeError m) = m"

text \<open>
  Modelled from the spec: \<^verbatim>\<open>snowdroughtindex.utils.progress\<close> (the classes
  \<^verbatim>\<open>ProgressTracker\<close> and the decorator \<^verbatim>\<open>monitor_memory\<close>) is not among the
  sources. The spec describes it as a synchronous, logging-like side channel with no
  effect on control flow or results: a tracker is the list of the calls made on it, in
  order, and the decorator is the identity.
\<close>

datatype event = Update nat string | Close

type_synonym 'a tracked = "event list \<times> (error + 'a)"

text \<open>The handler every function of the module ends with:
  \<^verbatim>\<open>except Exception as e: progress_tracker.close(); raise RuntimeError(f"...: {str(e)}")\<close>.\<close>

definition reraise :: "string \<Rightarrow> event list \<Rightarrow> error \<Rightarrow> 'a tracked" where
  "reraise prefix evs e = (evs @ [Close], Inl (RuntimeError (prefix @ str_of_error e)))"

section \<open>Tables (pandas)\<close>

text \<open>
  A cell of a table: a missing number, a number (a float is the rational number it
  denotes), a string, a date-time (an integer count of nanoseconds since the epoch, as
  \<^verbatim>\<open>datetime64[ns]\<close> has it) or a missing date-time.
\<close>

datatype cell = NaN | Num rat | Str string | Stamp int | NaT

text \<open>The row index of a table: a plain index (with an optional name) or a composite one
  (one named list of labels per level).\<close>

datatype index = Index "string option" "cell list" | MultiIndex "(string \<times> cell list) list"

record dataframe =
  index :: index
  columns :: "(string \<times> cell list) list"

definition nrows :: "dataframe \<Rightarrow> nat" where
  "nrows df =
     (case index df of
        Index _ ls \<Rightarrow> length ls
      | MultiIndex lvls \<Rightarrow> (case lvls of [] \<Rightarrow> 0 | (_, ls) # _ \<Rightarrow> length ls))"

definition column_names :: "dataframe \<Rightarrow> string list" where
  "column_names df = map fst (columns df)"

text \<open>\<^verbatim>\<open>df[c]\<close>: the column, or \<^verbatim>\<open>KeyError\<close>.\<close>

definition get_column :: "dataframe \<Rightarrow> string \<Rightarrow> error + cell list" where
  "get_column df c = (case map_of (columns df) c of None \<Rightarrow> Inl (KeyError c) | Some xs \<Rightarrow> Inr xs)"

definition range_index :: "nat \<Rightarrow> index" where
  "range_index n = Index None (map (\<lambda>i. Num (of_nat i)) [0..<n])"

text \<open>\<^verbatim>\<open>df[c] = xs\<close>: an existing column is replaced where it stands, a new one is
  appended.\<close>

fun assign_column :: "string \<Rightarrow> cell list \<Rightarrow> (string \<times> cell list) list \<Rightarrow> (string \<times> cell list) list" where
  "assign_column c xs [] = [(c, xs)]"
| "assign_column c xs ((d, ys) # rest) =
     (if d = c then (c, xs) # rest else (d, ys) # assign_column c xs rest)"

definition set_column :: "string \<Rightarrow> cell list \<Rightarrow> dataframe \<Rightarrow> dataframe" where
  "set_column c xs df = df\<lparr>columns := assign_column c xs (columns df)\<rparr>"

text \<open>\<^verbatim>\<open>df[c] = v\<close> with a scalar: every row gets the value.\<close>

definition set_scalar :: "string \<Rightarrow> cell \<Rightarrow> dataframe \<Rightarrow> dataframe" where
  "set_scalar c v df = set_column c (replicate (nrows df) v) df"

text \<open>Rows selected by a boolean msk, \<^verbatim>\<open>df[mask]\<close> and \<^verbatim>\<open>df.loc[mask]\<close>: the
  rows keep their index labels.\<close>

definition keep :: "bool list \<Rightarrow> 'a list \<Rightarrow> 'a list" where
  "keep msk xs = map fst (filter snd (zip xs msk))"

definition select_index :: "bool list \<Rightarrow> index \<Rightarrow> index" where
  "select_index msk ix =
     (case ix of
        Index nm ls \<Rightarrow> Index nm (keep msk ls)
      | MultiIndex lvls \<Rightarrow> MultiIndex (map (\<lambda>(nm, ls). (nm, keep msk ls)) lvls))"

definition select_rows :: "bool list \<Rightarrow> dataframe \<Rightarrow> dataframe" where
  "select_rows msk df =
     df\<lparr>index := select_index msk (index df),
        columns := map (\<lambda>(c, xs). (c, keep msk xs)) (columns df)\<rparr>"

text \<open>\<^verbatim>\<open>Series.isin(values)\<close>.\<close>

definition isin :: "cell list \<Rightarrow> cell list \<Rightarrow> bool list" where
  "isin xs vs = map (\<lambda>x. x \<in> set vs) xs"

text \<open>\<^verbatim>\<open>df.reset_index()\<close>: the index levels become the first columns and the index
  becomes \<open>0, 1, ...\<close>; a level whose name is a column already is a \<^verbatim>\<open>ValueError\<close>.\<close>

definition index_levels :: "index \<Rightarrow> (string \<times> cell list) list" where
  "index_levels ix =
     (case ix of
        Index nm ls \<Rightarrow> [(case nm of None \<Rightarrow> ''index'' | Some n \<Rightarrow> n, ls)]
      | MultiIndex lvls \<Rightarrow> lvls)"

definition reset_index :: "dataframe \<Rightarrow> error + dataframe" where
  "reset_index df =
     (let lvls = index_levels (index df) in
      case filter (\<lambda>n. n \<in> set (column_names df)) (map fst lvls) of
        n # _ \<Rightarrow> Inl (ValueError (''cannot insert '' @ n @ '', already exists''))
      | [] \<Rightarrow> Inr (df\<lparr>index := range_index (nrows df), columns := lvls @ columns df\<rparr>))"

definition is_multiindex :: "index \<Rightarrow> bool" where
  "is_multiindex ix = (case ix of MultiIndex _ \<Rightarrow> True | Index _ _ \<Rightarrow> False)"

text \<open>\<^verbatim>\<open>pd.to_datetime(series)\<close>: date-times stay, missing cells become \<open>NaT\<close>, and
  every other cell goes through the library's parser, which is a parameter of the
  model; a cell it rejects raises.\<close>

fun to_datetime_cell :: "(cell \<Rightarrow> error + int) \<Rightarrow> cell \<Rightarrow> error + cell" where
  "to_datetime_cell parse (Stamp t) = Inr (Stamp t)"
| "to_datetime_cell parse NaT = Inr NaT"
| "to_datetime_cell parse NaN = Inr NaT"
| "to_datetime_cell parse c = (case parse c of Inl e \<Rightarrow> Inl e | Inr t \<Rightarrow> Inr (Stamp t))"

fun to_datetime :: "(cell \<Rightarrow> error + int) \<Rightarrow> cell list \<Rightarrow> error + cell list" where
  "to_datetime parse [] = Inr []"
| "to_datetime parse (c # cs) =
     (case to_datetime_cell parse c of
        Inl e \<Rightarrow> Inl e
      | Inr d \<Rightarrow> (case to_datetime parse cs of Inl e \<Rightarrow> Inl e | Inr ds \<Rightarrow> Inr (d # ds)))"

text \<open>Elementwise \<^verbatim>\<open>series == value\<close>: a missing cell equals nothing.\<close>

definition cell_eq :: "cell \<Rightarrow> cell \<Rightarrow> bool" where
  "cell_eq a b = (a = b \<and> a \<noteq> NaN \<and> a \<noteq> NaT)"

text \<open>\<^verbatim>\<open>Series.unique()\<close>: the distinct cells in the order of their first appearance.\<close>

definition unique :: "'a list \<Rightarrow> 'a list" where
  "unique xs = rev (remdups (rev xs))"

text \<open>\<^verbatim>\<open>df.loc[mask, c] = v\<close>: the rows of the mask get the value in column \<open>c\<close>; a
  column that does not exist yet is created, with missing cells in the other rows.\<close>

definition loc_set :: "bool list \<Rightarrow> string \<Rightarrow> cell \<Rightarrow> dataframe \<Rightarrow> dataframe" where
  "loc_set msk c v df =
     (case map_of (columns df) c of
        Some xs \<Rightarrow> set_column c (map (\<lambda>(x, m). if m then v else x) (zip xs msk)) df
      | None \<Rightarrow> set_column c (map (\<lambda>m. if m then v else NaN) msk) df)"

text \<open>The least and the greatest element of a list that is not empty.\<close>

definition least :: "'a::linorder list \<Rightarrow> 'a" where
  "least xs = foldr min xs (hd xs)"

definition greatest :: "'a::linorder list \<Rightarrow> 'a" where
  "greatest xs = foldr max xs (hd xs)"

text \<open>Python's \<^verbatim>\<open>str(n)\<close> for a natural number, as the f-strings of the progress
  messages print it.\<close>

fun string_of_nat :: "nat \<Rightarrow> string" where
  "string_of_nat n =
     (if n < 10 then [''0123456789'' ! n]
      else string_of_nat (n div 10) @ [''0123456789'' ! (n mod 10)])"

subsection \<open>Daily means\<close>

text \<open>
  \<^verbatim>\<open>df.set_index(time_col).resample('D')[value_col].mean().reset_index()\<close>. The daily
  bins run from the day of the earliest date-time to the day of the latest one, every
  day in between included; a bin's value is the mean of the numbers that fall into it,
  missing numbers left out, and it is missing when no number falls into it. Rows whose
  date-time is missing fall into no bin. Date-times carry no time zone.

  The mean itself is computed by the library in float64 arithmetic, which rounds: it is
  not the exact quotient of the sum by the count in general. What the library returns
  for a list of numbers that is not empty is the parameter \<open>fmean\<close> of the model.
\<close>

definition day_ns :: int where
  "day_ns = 86400000000000"

definition day_of :: "int \<Rightarrow> int" where
  "day_of t = t div day_ns"

fun cell_day :: "cell \<Rightarrow> int option" where
  "cell_day (Stamp t) = Some (day_of t)"
| "cell_day _ = None"

fun cell_num :: "cell \<Rightarrow> rat option" where
  "cell_num (Num r) = Some r"
| "cell_num _ = None"

fun is_datetime :: "cell \<Rightarrow> bool" where
  "is_datetime (Stamp _) = True"
| "is_datetime NaT = True"
| "is_datetime _ = False"

fun is_numeric :: "cell \<Rightarrow> bool" where
  "is_numeric (Num _) = True"
| "is_numeric NaN = True"
| "is_numeric _ = False"

definition day_range :: "cell list \<Rightarrow> int list" where
  "day_range ts =
     (let ds = List.map_filter cell_day ts in if ds = [] then [] else [least ds..greatest ds])"

definition day_values :: "int \<Rightarrow> cell list \<Rightarrow> cell list \<Rightarrow> rat list" where
  "day_values d ts vs = List.map_filter cell_num (keep (map (\<lambda>t. cell_day t = Some d) ts) vs)"

definition mean_cell :: "(rat list \<Rightarrow> rat) \<Rightarrow> rat list \<Rightarrow> cell" where
  "mean_cell fmean rs = (if rs = [] then NaN else Num (fmean rs))"

text \<open>The labels of the bins (the start of each day) and their values.\<close>

definition daily_times :: "cell list \<Rightarrow> cell list" where
  "daily_times ts = map (\<lambda>d. Stamp (d * day_ns)) (day_range ts)"

definition daily_means :: "(rat list \<Rightarrow> rat) \<Rightarrow> cell list \<Rightarrow> cell list \<Rightarrow> cell list" where
  "daily_means fmean ts vs = map (\<lambda>d. mean_cell fmean (day_values d ts vs)) (day_range ts)"

definition resample_daily_mean ::
  "(rat list \<Rightarrow> rat) \<Rightarrow> dataframe \<Rightarrow> string \<Rightarrow> string \<Rightarrow> error + dataframe" where
  "resample_daily_mean fmean df time_col value_col =
     (case get_column df time_col of
        Inl e \<Rightarrow> Inl e
      | Inr ts \<Rightarrow>
          if \<not> list_all is_datetime ts
          then Inl (TypeError ''Only valid with DatetimeIndex, TimedeltaIndex or PeriodIndex'')
          else if value_col = time_col
          then Inl (KeyError (''Column not found: '' @ value_col))
          else
            (case get_column df value_col of
               Inl _ \<Rightarrow> Inl (KeyError (''Column not found: '' @ value_col))
             | Inr vs \<Rightarrow>
                 if \<not> list_all is_numeric vs
                 then Inl (TypeError ''Could not convert to numeric'')
                 else
                   Inr \<lparr>index = range_index (length (day_range ts)),
                        columns = [(time_col, daily_times ts),
                                   (value_col, daily_means fmean ts vs)]\<rparr>))"

text \<open>\<^verbatim>\<open>pd.concat(frames, ignore_index=True)\<close>: the rows of the frames one after the
  other under a fresh index; the columns are those of all frames, a frame without a
  column contributing missing cells. An empty list of frames is a \<^verbatim>\<open>ValueError\<close>.\<close>

definition column_or_nan :: "string \<Rightarrow> dataframe \<Rightarrow> cell list" where
  "column_or_nan c df =
     (case map_of (columns df) c of Some xs \<Rightarrow> xs | None \<Rightarrow> replicate (nrows df) NaN)"

definition concat_frames :: "dataframe list \<Rightarrow> error + dataframe" where
  "concat_frames fs =
     (if fs = [] then Inl (ValueError ''No objects to concatenate'')
      else Inr \<lparr>index = range_index (sum_list (map nrows fs)),
                columns = map (\<lambda>c. (c, concat (map (column_or_nan c) fs)))
                              (unique (concat (map column_names fs)))\<rparr>)"

section \<open>Labelled arrays (xarray)\<close>

text \<open>
  A variable of a dataset: its dimension names, its shape, and its entries by position
  (\<open>None\<close> is a missing entry). \<open>da_coord\<close> tells a coordinate variable from a data
  variable.
\<close>

record data_array =
  da_dims :: "string list"
  da_shape :: "nat list"
  da_vals :: "nat list \<Rightarrow> rat option"
  da_coord :: bool

record dataset =
  ds_dims :: "(string \<times> nat) list"
  ds_labels :: "(string \<times> cell list) list"
  ds_vars :: "(string \<times> data_array) list"

datatype pyobj = DataFrame dataframe | Dataset dataset | OtherObj

section \<open>Preprocessors\<close>

text \<open>\<^verbatim>\<open>Dataset.to_dataframe\<close> is the library's; it is the first parameter.\<close>

definition preprocess_swe :: "(dataset \<Rightarrow> error + dataframe) \<Rightarrow> dataset \<Rightarrow> dataframe tracked" where
  "preprocess_swe to_dataframe swe_data =
     (let pre = ''Error during SWE preprocessing: '';
          log1 = [Update 1 ''Converting to DataFrame''] in
      case to_dataframe swe_data of
        Inl e \<Rightarrow> reraise pre log1 e
      | Inr swe_df \<Rightarrow>
          (let log2 = log1 @ [Update 1 ''Resetting index''] in
           case (if is_multiindex (index swe_df) then reset_index swe_df else Inr swe_df) of
             Inl e \<Rightarrow> reraise pre log2 e
           | Inr swe_df \<Rightarrow>
               (log2 @ [Update 1 ''Adding metadata'', Update 1 ''Finalizing preprocessing''],
                Inr (set_scalar ''units'' (Str ''mm'')
                      (set_scalar ''data_source'' (Str ''SWE'') swe_df)))))"

definition preprocess_precip ::
  "(dataset \<Rightarrow> error + dataframe) \<Rightarrow> (cell \<Rightarrow> error + int) \<Rightarrow> dataset \<Rightarrow> dataframe tracked" where
  "preprocess_precip to_dataframe parse precip_data =
     (let pre = ''Error during precipitation preprocessing: '';
          log1 = [Update 1 ''Converting to DataFrame''] in
      case to_dataframe precip_data of
        Inl e \<Rightarrow> reraise pre log1 e
      | Inr precip_df \<Rightarrow>
          (let log2 = log1 @ [Update 1 ''Resetting index''] in
           case (if is_multiindex (index precip_df) then reset_index precip_df else Inr precip_df) of
             Inl e \<Rightarrow> reraise pre log2 e
           | Inr precip_df \<Rightarrow>
               (let log3 = log2 @ [Update 1 ''Converting time format''] in
                case (case map_of (columns precip_df) ''time'' of
                        None \<Rightarrow> Inr precip_df
                      | Some ts \<Rightarrow>
                          (case to_datetime parse ts of
                             Inl e \<Rightarrow> Inl e
                           | Inr ds \<Rightarrow> Inr (set_column ''time'' ds precip_df))) of
                  Inl e \<Rightarrow> reraise pre log3 e
                | Inr precip_df \<Rightarrow>
                    (log3 @ [Update 1 ''Adding metadata''],
                     Inr (set_scalar ''units'' (Str ''mm'')
                           (set_scalar ''data_source'' (Str ''Precipitation'') precip_df))))))"

section \<open>Filtering by station\<close>

text \<open>\<^verbatim>\<open>Dataset.sel(station_id=...)\<close> is the library's; it is the first parameter.\<close>

definition filter_stations ::
  "(dataset \<Rightarrow> cell list \<Rightarrow> error + dataset) \<Rightarrow> pyobj \<Rightarrow> cell list \<Rightarrow> pyobj tracked" where
  "filter_stations sel data stations_list =
     (let pre = ''Error during station filtering: '';
          log1 = [Update 1 ''Validating input data''];
          log2 = log1 @ [Update 1 ''Returning filtered data''] in
      case data of
        DataFrame df \<Rightarrow>
          (case get_column df ''station_id'' of
             Inl _ \<Rightarrow> reraise pre log1 (ValueError ''DataFrame does not contain 'station_id' column'')
           | Inr ids \<Rightarrow> (log2, Inr (DataFrame (select_rows (isin ids stations_list) df))))
      | Dataset ds \<Rightarrow>
          (case sel ds stations_list of
             Inl e \<Rightarrow> reraise pre log1 e
           | Inr filtered \<Rightarrow> (log2, Inr (Dataset filtered)))
      | OtherObj \<Rightarrow>
          reraise pre log1 (TypeError ''Data must be a pandas DataFrame or xarray Dataset''))"

section \<open>Geometry (shapely and geopandas)\<close>

text \<open>
  A geometry is known by its kind and its vertices; \<open>OtherGeometry\<close> stands for the
  kinds this module never names (multipoints, collections and so on) and \<open>NoGeometry\<close>
  is a missing entry (\<^verbatim>\<open>None\<close>) of a geometry column. A coordinate reference system is its EPSG code, or
  \<open>None\<close> for a collection without one.
\<close>

datatype geometry =
    Point rat rat
  | LineString "(rat \<times> rat) list"
  | Polygon "(rat \<times> rat) list"
  | MultiPolygon "(rat \<times> rat) list list"
  | OtherGeometry string
  | NoGeometry

text \<open>A geospatial table: the attribute columns, the column of geometries (named
  \<^verbatim>\<open>geometry\<close>, as \<^verbatim>\<open>gpd.read_file\<close> and \<^verbatim>\<open>GeoDataFrame(df, geometry=...)\<close> name it)
  and the CRS tag. A \<^verbatim>\<open>GeoSeries\<close> is a column of geometries with a CRS tag.\<close>

record geodataframe =
  frame :: dataframe
  geoms :: "geometry list"
  crs :: "nat option"

record geoseries =
  gs_geoms :: "geometry list"
  gs_crs :: "nat option"

text \<open>What the geometry library computes is not part of this module: the predicate
  \<^verbatim>\<open>within\<close>, the operation \<^verbatim>\<open>buffer\<close> and the reprojection of one geometry from
  one EPSG code to another are parameters of the model.\<close>

record geolib =
  lib_within :: "geometry \<Rightarrow> geometry \<Rightarrow> bool"
  lib_buffer :: "geometry \<Rightarrow> rat \<Rightarrow> geometry"
  lib_transform :: "nat \<Rightarrow> nat \<Rightarrow> geometry \<Rightarrow> geometry"

text \<open>\<^verbatim>\<open>isinstance(geom, Point)\<close> and \<^verbatim>\<open>isinstance(geom, (Polygon, MultiPolygon))\<close>.\<close>

fun is_point :: "geometry \<Rightarrow> bool" where
  "is_point (Point _ _) = True"
| "is_point _ = False"

fun is_polygon :: "geometry \<Rightarrow> bool" where
  "is_polygon (Polygon _) = True"
| "is_polygon (MultiPolygon _) = True"
| "is_polygon _ = False"

text \<open>\<^verbatim>\<open>to_crs(epsg=n)\<close>: a collection without a CRS cannot be reprojected.\<close>

definition naive_crs :: error where
  "naive_crs = ValueError ''Cannot transform naive geometries.  Please set a crs on the object first.''"

definition to_crs :: "geolib \<Rightarrow> nat \<Rightarrow> geodataframe \<Rightarrow> error + geodataframe" where
  "to_crs lib epsg gdf =
     (case crs gdf of
        None \<Rightarrow> Inl naive_crs
      | Some c \<Rightarrow> Inr (gdf\<lparr>geoms := map (lib_transform lib c epsg) (geoms gdf), crs := Some epsg\<rparr>))"

definition series_to_crs :: "geolib \<Rightarrow> nat \<Rightarrow> geoseries \<Rightarrow> error + geoseries" where
  "series_to_crs lib epsg gs =
     (case gs_crs gs of
        None \<Rightarrow> Inl naive_crs
      | Some c \<Rightarrow> Inr \<lparr>gs_geoms = map (lib_transform lib c epsg) (gs_geoms gs), gs_crs = Some epsg\<rparr>)"

text \<open>\<^verbatim>\<open>gdf.buffer(d)\<close>: the buffered geometries, as a \<^verbatim>\<open>GeoSeries\<close> with the CRS of the
  table.\<close>

definition buffer_series :: "geolib \<Rightarrow> geodataframe \<Rightarrow> rat \<Rightarrow> geoseries" where
  "buffer_series lib gdf d = \<lparr>gs_geoms = map (\<lambda>g. lib_buffer lib g d) (geoms gdf), gs_crs = crs gdf\<rparr>"

definition gdf_select :: "bool list \<Rightarrow> geodataframe \<Rightarrow> geodataframe" where
  "gdf_select msk gdf = gdf\<lparr>frame := select_rows msk (frame gdf), geoms := keep msk (geoms gdf)\<rparr>"

text \<open>\<^verbatim>\<open>gdf.assign(c=v)\<close> with a scalar.\<close>

definition gdf_assign :: "string \<Rightarrow> cell \<Rightarrow> geodataframe \<Rightarrow> geodataframe" where
  "gdf_assign c v gdf = gdf\<lparr>frame := set_scalar c v (frame gdf)\<rparr>"

section \<open>Spatial join\<close>

text \<open>\<^verbatim>\<open>gpd.sjoin\<close> is the library's; it is the first parameter.\<close>

definition spatial_join ::
  "(geodataframe \<Rightarrow> geodataframe \<Rightarrow> string \<Rightarrow> string \<Rightarrow> error + geodataframe) \<Rightarrow>
   geodataframe \<Rightarrow> geodataframe \<Rightarrow> string \<Rightarrow> string \<Rightarrow> geodataframe tracked" where
  "spatial_join sjoin points_gdf polygons_gdf how op =
     (let pre = ''Error during spatial join: '';
          log1 = [Update 1 ''Validating input geometries''];
          log2 = log1 @ [Update 1 ''Checking coordinate systems''];
          log3 = log2 @ [Update 1 ''Executing spatial join''] in
      if \<not> list_all is_point (geoms points_gdf)
      then reraise pre log1 (ValueError ''points_gdf must contain only Point geometries'')
      else if \<not> list_all is_polygon (geoms polygons_gdf)
      then reraise pre log1
             (ValueError ''polygons_gdf must contain only Polygon or MultiPolygon geometries'')
      else if crs points_gdf \<noteq> crs polygons_gdf
      then reraise pre log2 (ValueError ''Coordinate systems of points and polygons must match'')
      else
        (case sjoin points_gdf polygons_gdf how op of
           Inl e \<Rightarrow> reraise pre log3 e
         | Inr result \<Rightarrow> (log3 @ [Update 1 ''Finalizing results''], Inr result)))"

section \<open>Stations of a basin\<close>

text \<open>The second element of the result: the integer \<open>0\<close> or the buffer.\<close>

datatype buffer_result = IntZero | BufferSeries geoseries

text \<open>\<^verbatim>\<open>basin_shapefile.loc[basin_shapefile['Station_ID'] == basin_id]\<close>.\<close>

definition basin_rows :: "geodataframe \<Rightarrow> string \<Rightarrow> error + geodataframe" where
  "basin_rows basin_shapefile basin_id =
     (case get_column (frame basin_shapefile) ''Station_ID'' of
        Inl e \<Rightarrow> Inl e
      | Inr ids \<Rightarrow> Inr (gdf_select (map (\<lambda>c. cell_eq c (Str basin_id)) ids) basin_shapefile))"

text \<open>\<^verbatim>\<open>....iloc[0].loc["geometry"]\<close>: the geometry of the first matching row.\<close>

definition basin_geometry :: "geodataframe \<Rightarrow> string \<Rightarrow> error + geometry" where
  "basin_geometry basin_shapefile basin_id =
     (case basin_rows basin_shapefile basin_id of
        Inl e \<Rightarrow> Inl e
      | Inr rows \<Rightarrow>
          (case geoms rows of
             [] \<Rightarrow> Inl (IndexError ''single positional indexer is out-of-bounds'')
           | g # _ \<Rightarrow> Inr g))"

definition buffered_mask ::
  "geolib \<Rightarrow> geodataframe \<Rightarrow> geodataframe \<Rightarrow> string \<Rightarrow> rat \<Rightarrow> error + buffer_result \<times> bool list" where
  "buffered_mask lib stations basin_shapefile basin_id buffer_km =
     (case basin_rows basin_shapefile basin_id of
        Inl e \<Rightarrow> Inl e
      | Inr rows \<Rightarrow>
     (case to_crs lib 3763 rows of
        Inl e \<Rightarrow> Inl e
      | Inr basin_crs_conversion \<Rightarrow>
     (case to_crs lib 3763 stations of
        Inl e \<Rightarrow> Inl e
      | Inr stations_crs_conversion \<Rightarrow>
          (let buffer_m = buffer_km * 1000;
               basin_buffer = buffer_series lib basin_crs_conversion buffer_m in
           case gs_geoms basin_buffer of
             [] \<Rightarrow> Inl (IndexError ''single positional indexer is out-of-bounds'')
           | b # _ \<Rightarrow>
               (let msk = map (\<lambda>g. lib_within lib g b) (geoms stations_crs_conversion) in
                case series_to_crs lib 4326 basin_buffer of
                  Inl e \<Rightarrow> Inl e
                | Inr basin_buffer \<Rightarrow> Inr (BufferSeries basin_buffer, msk))))))"

definition extract_stations_in_basin ::
  "geolib \<Rightarrow> geodataframe \<Rightarrow> geodataframe \<Rightarrow> string \<Rightarrow> rat \<Rightarrow>
   (geodataframe \<times> buffer_result) tracked" where
  "extract_stations_in_basin lib stations basin_shapefile basin_id buffer_km =
     (let pre = ''Error during station extraction: '';
          log1 = [Update 1 ''Extracting basin geometry''];
          log2 = log1 @ [Update 1 ''Processing buffer''] in
      case basin_geometry basin_shapefile basin_id of
        Inl e \<Rightarrow> reraise pre log1 e
      | Inr basin_geom \<Rightarrow>
          (case (if buffer_km > 0
                 then buffered_mask lib stations basin_shapefile basin_id buffer_km
                 else Inr (IntZero, map (\<lambda>g. lib_within lib g basin_geom) (geoms stations))) of
             Inl e \<Rightarrow> reraise pre log2 e
           | Inr (basin_buffer, msk) \<Rightarrow>
               (log2 @ [Update 1 ''Extracting stations''],
                Inr (gdf_assign ''basin'' (Str basin_id) (gdf_select msk stations), basin_buffer))))"

section \<open>Data availability\<close>

text \<open>The position of a dimension among the dimensions of a variable.\<close>

fun position :: "string \<Rightarrow> string list \<Rightarrow> nat option" where
  "position d [] = None"
| "position d (x # xs) = (if d = x then Some 0 else map_option Suc (position d xs))"

definition insert_at :: "nat \<Rightarrow> nat \<Rightarrow> nat list \<Rightarrow> nat list" where
  "insert_at p k idx = take p idx @ k # drop p idx"

definition remove_at :: "nat \<Rightarrow> 'a list \<Rightarrow> 'a list" where
  "remove_at p xs = take p xs @ drop (Suc p) xs"

text \<open>
  \<^verbatim>\<open>count(dim=d)\<close> on one variable: the number of entries along \<open>d\<close> that are not
  missing, for each position of the remaining dimensions. A variable without the
  dimension is reduced over no axis: each entry counts itself, \<open>1\<close> when present and
  \<open>0\<close> when missing.
\<close>

definition count_along :: "string \<Rightarrow> data_array \<Rightarrow> data_array" where
  "count_along d v =
     (case position d (da_dims v) of
        None \<Rightarrow> v\<lparr>da_vals := (\<lambda>idx. if da_vals v idx = None then Some 0 else Some 1)\<rparr>
      | Some p \<Rightarrow>
          \<lparr>da_dims = remove_at p (da_dims v),
           da_shape = remove_at p (da_shape v),
           da_vals = (\<lambda>idx. Some (of_nat (length
                        (filter (\<lambda>k. da_vals v (insert_at p k idx) \<noteq> None) [0..<da_shape v ! p])))),
           da_coord = da_coord v\<rparr>)"

text \<open>On a dataset: every data variable is counted; a coordinate variable is kept when it
  does not have the dimension and dropped when it has. A name that is not a dimension
  of the dataset is a \<^verbatim>\<open>ValueError\<close>.\<close>

fun count_vars :: "string \<Rightarrow> (string \<times> data_array) list \<Rightarrow> (string \<times> data_array) list" where
  "count_vars d [] = []"
| "count_vars d ((n, v) # rest) =
     (if da_coord v
      then (if d \<in> set (da_dims v) then count_vars d rest else (n, v) # count_vars d rest)
      else (n, count_along d v) # count_vars d rest)"

definition ds_count :: "string \<Rightarrow> dataset \<Rightarrow> error + dataset" where
  "ds_count d ds =
     (if d \<notin> set (map fst (ds_dims ds))
      then Inl (ValueError (''Dataset does not contain the dimensions: '' @ d))
      else Inr \<lparr>ds_dims = filter (\<lambda>(n, _). n \<noteq> d) (ds_dims ds),
                ds_labels = filter (\<lambda>(n, _). n \<noteq> d) (ds_labels ds),
                ds_vars = count_vars d (ds_vars ds)\<rparr>)"

text \<open>\<^verbatim>\<open>len(data[name])\<close>: the size of the dimension, or the extent of a variable of
  that name along its first dimension.\<close>

definition ds_len :: "dataset \<Rightarrow> string \<Rightarrow> error + nat" where
  "ds_len ds name =
     (case map_of (ds_dims ds) name of
        Some n \<Rightarrow> Inr n
      | None \<Rightarrow>
          (case map_of (ds_vars ds) name of
             None \<Rightarrow> Inl (KeyError name)
           | Some v \<Rightarrow>
               (case da_shape v of
                  [] \<Rightarrow> Inl (TypeError ''len() of unsized object'')
                | n # _ \<Rightarrow> Inr n)))"

text \<open>\<^verbatim>\<open>(counts / total_times) * 100\<close> on one entry. Dividing by zero does not raise in
  numpy: the result is \<open>nan\<close> or \<open>inf\<close>, which \<open>None\<close> stands for.\<close>

definition percentage :: "nat \<Rightarrow> rat option \<Rightarrow> rat option" where
  "percentage total_times c =
     (case c of
        None \<Rightarrow> None
      | Some n \<Rightarrow> if total_times = 0 then None else Some ((n / of_nat total_times) * 100))"

definition map_data_vars :: "(rat option \<Rightarrow> rat option) \<Rightarrow> dataset \<Rightarrow> dataset" where
  "map_data_vars f ds =
     ds\<lparr>ds_vars := map (\<lambda>(n, v). (n, if da_coord v then v else v\<lparr>da_vals := (\<lambda>idx. f (da_vals v idx))\<rparr>))
                       (ds_vars ds)\<rparr>"

definition assess_data_availability :: "dataset \<Rightarrow> string \<Rightarrow> string \<Rightarrow> dataset tracked" where
  "assess_data_availability data time_dim station_dim =
     (let pre = ''Error during data availability assessment: '';
          log1 = [Update 1 ''Counting non-NaN values''];
          log2 = log1 @ [Update 1 ''Calculating total time points''];
          log3 = log2 @ [Update 1 ''Calculating availability percentages''] in
      case ds_count time_dim data of
        Inl e \<Rightarrow> reraise pre log1 e
      | Inr counts \<Rightarrow>
          (case ds_len data time_dim of
             Inl e \<Rightarrow> reraise pre log2 e
           | Inr total_times \<Rightarrow> (log3, Inr (map_data_vars (percentage total_times) counts))))"

section \<open>Objects that are mutated in place\<close>

text \<open>
  Two functions of the module assign into the object they are given. The caller sees
  the assignment, so these functions run on a store that maps references to objects:
  they take the reference of their argument and return the store they leave behind,
  the calls made on the progress tracker, and the result or the exception.
\<close>

type_synonym store = "nat \<Rightarrow> pyobj"

type_synonym 'a effect = "store \<times> event list \<times> (error + 'a)"

section \<open>Coordinate update\<close>

text \<open>\<^verbatim>\<open>coordinates_df.set_index(id_col)[[lat_col, lon_col]].to_dict('index')\<close>: the
  entries are (station id, new latitude, new longitude); the identifiers must be
  distinct.\<close>

definition coord_map_of ::
  "dataframe \<Rightarrow> string \<Rightarrow> string \<Rightarrow> string \<Rightarrow> error + (cell \<times> cell \<times> cell) list" where
  "coord_map_of coordinates_df id_col lat_col lon_col =
     (case get_column coordinates_df id_col of
        Inl e \<Rightarrow> Inl e
      | Inr ids \<Rightarrow>
          if lat_col = id_col then Inl (KeyError lat_col)
          else if lon_col = id_col then Inl (KeyError lon_col)
          else
            (case get_column coordinates_df lat_col of
               Inl e \<Rightarrow> Inl e
             | Inr lats \<Rightarrow>
                 (case get_column coordinates_df lon_col of
                    Inl e \<Rightarrow> Inl e
                  | Inr lons \<Rightarrow>
                      if \<not> distinct ids
                      then Inl (ValueError ''DataFrame index must be unique for orient='index'.'')
                      else Inr (zip ids (zip lats lons)))))"

text \<open>\<^verbatim>\<open>station_id in coord_map\<close> and \<^verbatim>\<open>coord_map[station_id]\<close>: a missing
  identifier is not a key.\<close>

definition coord_lookup :: "(cell \<times> cell \<times> cell) list \<Rightarrow> cell \<Rightarrow> (cell \<times> cell) option" where
  "coord_lookup coord_map station_id =
     (if station_id = NaN \<or> station_id = NaT then None else map_of coord_map station_id)"

subsection \<open>The table variant\<close>

text \<open>One turn of the loop over the stations of the table.\<close>

definition update_station ::
  "(cell \<times> cell \<times> cell) list \<Rightarrow> cell \<Rightarrow> dataframe \<Rightarrow> error + dataframe" where
  "update_station coord_map station_id data =
     (case coord_lookup coord_map station_id of
        None \<Rightarrow> Inr data
      | Some (lat, lon) \<Rightarrow>
          (case get_column data ''station_id'' of
             Inl e \<Rightarrow> Inl e
           | Inr ids \<Rightarrow>
               (let msk = map (\<lambda>c. cell_eq c station_id) ids in
                Inr (loc_set msk ''lon'' lon (loc_set msk ''lat'' lat data)))))"

text \<open>The loop: the table as the turns so far left it, the progress updates made, and the
  exception that stopped it, if one did.\<close>

fun update_loop ::
  "(cell \<times> cell \<times> cell) list \<Rightarrow> nat \<Rightarrow> nat \<Rightarrow> cell list \<Rightarrow> dataframe \<Rightarrow>
   dataframe \<times> event list \<times> error option" where
  "update_loop coord_map n i [] data = (data, [], None)"
| "update_loop coord_map n i (station_id # rest) data =
     (case update_station coord_map station_id data of
        Inl e \<Rightarrow> (data, [], Some e)
      | Inr data' \<Rightarrow>
          (case update_loop coord_map n (Suc i) rest data' of
             (final, evs, r) \<Rightarrow>
               (final,
                Update 1 (''Updated coordinates for station '' @ string_of_nat (Suc i) @ ''/'' @
                          string_of_nat n) # evs,
                r)))"

subsection \<open>The array variant\<close>

text \<open>A cell written into an array of floats.\<close>

fun cell_float :: "cell \<Rightarrow> error + rat option" where
  "cell_float (Num r) = Inr (Some r)"
| "cell_float NaN = Inr None"
| "cell_float (Str s) = Inl (ValueError (''could not convert string to float: '' @ s))"
| "cell_float _ = Inl (TypeError ''float() argument must be a string or a real number'')"

text \<open>\<^verbatim>\<open>a[i] = v\<close> (for \<open>one_dim\<close>) and \<^verbatim>\<open>a[i, :] = v\<close> (otherwise) on a copy of the
  entries of a variable: every entry whose first index is \<open>i\<close> gets the value.\<close>

definition set_station :: "bool \<Rightarrow> nat \<Rightarrow> rat option \<Rightarrow> data_array \<Rightarrow> error + data_array" where
  "set_station one_dim i v a =
     (if length (da_shape a) < (if one_dim then 1 else 2)
      then Inl (IndexError ''too many indices for array'')
      else if hd (da_shape a) \<le> i
      then Inl (IndexError ''index out of bounds'')
      else Inr (a\<lparr>da_vals := (\<lambda>idx. case idx of [] \<Rightarrow> da_vals a idx
                                       | j # _ \<Rightarrow> if j = i then v else da_vals a idx)\<rparr>))"

definition update_entry ::
  "(cell \<times> cell \<times> cell) list \<Rightarrow> bool \<Rightarrow> nat \<Rightarrow> cell \<Rightarrow> data_array \<times> data_array \<Rightarrow>
   error + data_array \<times> data_array" where
  "update_entry coord_map one_dim i sid arrays =
     (case coord_lookup coord_map sid of
        None \<Rightarrow> Inr arrays
      | Some (lat, lon) \<Rightarrow>
          (case cell_float lat of
             Inl e \<Rightarrow> Inl e
           | Inr v \<Rightarrow>
          (case set_station one_dim i v (fst arrays) of
             Inl e \<Rightarrow> Inl e
           | Inr updated_lat \<Rightarrow>
          (case cell_float lon of
             Inl e \<Rightarrow> Inl e
           | Inr w \<Rightarrow>
          (case set_station one_dim i w (snd arrays) of
             Inl e \<Rightarrow> Inl e
           | Inr updated_lon \<Rightarrow> Inr (updated_lat, updated_lon))))))"

fun update_entries ::
  "(cell \<times> cell \<times> cell) list \<Rightarrow> bool \<Rightarrow> nat \<Rightarrow> nat \<Rightarrow> cell list \<Rightarrow> data_array \<times> data_array \<Rightarrow>
   (data_array \<times> data_array) \<times> event list \<times> error option" where
  "update_entries coord_map one_dim n i [] arrays = (arrays, [], None)"
| "update_entries coord_map one_dim n i (sid # rest) arrays =
     (case update_entry coord_map one_dim i sid arrays of
        Inl e \<Rightarrow> (arrays, [], Some e)
      | Inr arrays' \<Rightarrow>
          (case update_entries coord_map one_dim n (Suc i) rest arrays' of
             (final, evs, r) \<Rightarrow>
               (final,
                Update 1 (''Updated coordinates for station '' @ string_of_nat (Suc i) @ ''/'' @
                          string_of_nat n) # evs,
                r)))"

definition get_var :: "dataset \<Rightarrow> string \<Rightarrow> error + data_array" where
  "get_var ds name = (case map_of (ds_vars ds) name of None \<Rightarrow> Inl (KeyError name) | Some v \<Rightarrow> Inr v)"

fun assign_var :: "string \<Rightarrow> data_array \<Rightarrow> (string \<times> data_array) list \<Rightarrow> (string \<times> data_array) list" where
  "assign_var c v [] = [(c, v)]"
| "assign_var c v ((d, w) # rest) =
     (if d = c then (c, v) # rest else (d, w) # assign_var c v rest)"

definition update_dataset ::
  "(cell \<times> cell \<times> cell) list \<Rightarrow> cell list \<Rightarrow> dataset \<Rightarrow> dataset \<times> event list \<times> error option" where
  "update_dataset coord_map station_ids data =
     (case get_var data ''lat'' of
        Inl e \<Rightarrow> (data, [], Some e)
      | Inr lat \<Rightarrow>
     (case get_var data ''lon'' of
        Inl e \<Rightarrow> (data, [], Some e)
      | Inr lon \<Rightarrow>
     (case update_entries coord_map (length (da_dims lat) = 1) (length station_ids) 0 station_ids
             (lat, lon) of
        (_, evs, Some e) \<Rightarrow> (data, evs, Some e)
      | ((updated_lat, updated_lon), evs, None) \<Rightarrow>
          (data\<lparr>ds_vars := assign_var ''lon'' updated_lon
                              (assign_var ''lat'' updated_lat (ds_vars data))\<rparr>,
           evs, None))))"

subsection \<open>The function\<close>

definition update_coordinates ::
  "store \<Rightarrow> nat \<Rightarrow> dataframe \<Rightarrow> string \<Rightarrow> string \<Rightarrow> string \<Rightarrow> nat effect" where
  "update_coordinates st data coordinates_df id_col lat_col lon_col =
     (let pre = ''Error during coordinate update: '' in
      case st data of
        DataFrame df \<Rightarrow>
          (case coord_map_of coordinates_df id_col lat_col lon_col of
             Inl e \<Rightarrow> (st, [], Inl e)
           | Inr coord_map \<Rightarrow>
          (case get_column df ''station_id'' of
             Inl e \<Rightarrow> (st, [], Inl e)
           | Inr ids \<Rightarrow>
               (let station_ids = unique ids;
                    n_stations = length station_ids in
                case update_loop coord_map n_stations 0 station_ids df of
                  (final, evs, Some e) \<Rightarrow>
                    (st(data := DataFrame final), evs @ [Close],
                     Inl (RuntimeError (pre @ str_of_error e)))
                | (final, evs, None) \<Rightarrow> (st(data := DataFrame final), evs, Inr data))))
      | Dataset ds \<Rightarrow>
          (case coord_map_of coordinates_df id_col lat_col lon_col of
             Inl e \<Rightarrow> (st, [], Inl e)
           | Inr coord_map \<Rightarrow>
          (case map_of (ds_labels ds) ''station_id'' of
             None \<Rightarrow> (st, [], Inl (KeyError ''station_id''))
           | Some station_ids \<Rightarrow>
               (case update_dataset coord_map station_ids ds of
                  (final, evs, Some e) \<Rightarrow>
                    (st(data := Dataset final), evs @ [Close],
                     Inl (RuntimeError (pre @ str_of_error e)))
                | (final, evs, None) \<Rightarrow> (st(data := Dataset final), evs, Inr data))))
      | OtherObj \<Rightarrow> (st, [], Inl (TypeError ''Data must be a pandas DataFrame or xarray Dataset'')))"

text \<open>The latitude (or longitude, by \<open>pick\<close>) column after the stations of the list
  \<open>stations\<close> have been looked up: the picked coordinate of the entry where there is
  one, the old cell elsewhere.\<close>

definition patched ::
  "(cell \<times> cell \<times> cell) list \<Rightarrow> (cell \<times> cell \<Rightarrow> cell) \<Rightarrow> cell list \<Rightarrow> cell list \<Rightarrow> cell list \<Rightarrow> cell list" where
  "patched coord_map pick stations ids xs =
     map (\<lambda>(c, x). if c \<in> set stations
                    then (case coord_lookup coord_map c of Some p \<Rightarrow> pick p | None \<Rightarrow> x)
                    else x)
         (zip ids xs)"

section \<open>Hourly to daily\<close>

text \<open>The loop over the stations: the daily tables collected, the progress updates made,
  and the exception that stopped it, if one did.\<close>

fun daily_loop ::
  "(rat list \<Rightarrow> rat) \<Rightarrow> string \<Rightarrow> string \<Rightarrow> nat \<Rightarrow> nat \<Rightarrow> cell list \<Rightarrow> dataframe \<Rightarrow>
   dataframe list \<times> event list \<times> error option" where
  "daily_loop fmean value_col time_col n i [] df = ([], [], None)"
| "daily_loop fmean value_col time_col n i (station_id # rest) df =
     (case get_column df ''station_id'' of
        Inl e \<Rightarrow> ([], [], Some e)
      | Inr ids \<Rightarrow>
          (let station_data = select_rows (map (\<lambda>c. cell_eq c station_id) ids) df in
           case resample_daily_mean fmean station_data time_col value_col of
             Inl e \<Rightarrow> ([], [], Some e)
           | Inr daily_station \<Rightarrow>
               (case daily_loop fmean value_col time_col n (Suc i) rest df of
                  (daily_data, evs, r) \<Rightarrow>
                    (set_scalar ''station_id'' station_id daily_station # daily_data,
                     Update 1 (''Processed station '' @ string_of_nat (Suc i) @ ''/'' @
                               string_of_nat n) # evs,
                     r))))"

text \<open>The source is written for a table (its annotation says so) and does not look at
  the type of its argument; for any other object the model stops with a
  \<^verbatim>\<open>TypeError\<close> and leaves the store as it is.\<close>

definition convert_hourly_to_daily ::
  "(cell \<Rightarrow> error + int) \<Rightarrow> (rat list \<Rightarrow> rat) \<Rightarrow> store \<Rightarrow> nat \<Rightarrow> string \<Rightarrow> string \<Rightarrow> dataframe effect" where
  "convert_hourly_to_daily parse fmean st df value_col time_col =
     (let pre = ''Error during hourly to daily conversion: '' in
      case st df of
        DataFrame table \<Rightarrow>
          (case get_column table time_col of
             Inl e \<Rightarrow> (st, [], Inl e)
           | Inr ts \<Rightarrow>
          (case to_datetime parse ts of
             Inl e \<Rightarrow> (st, [], Inl e)
           | Inr dts \<Rightarrow>
               (let table = set_column time_col dts table;
                    st = st(df := DataFrame table) in
                case get_column table ''station_id'' of
                  Inl e \<Rightarrow> (st, [], Inl e)
                | Inr ids \<Rightarrow>
                    (let station_ids = unique ids;
                         n_stations = length station_ids in
                     case daily_loop fmean value_col time_col n_stations 0 station_ids table of
                       (_, evs, Some e) \<Rightarrow>
                         (st, evs @ [Close], Inl (RuntimeError (pre @ str_of_error e)))
                     | (daily_data, evs, None) \<Rightarrow>
                         (case concat_frames daily_data of
                            Inl e \<Rightarrow> (st, evs @ [Close], Inl (RuntimeError (pre @ str_of_error e)))
                          | Inr result \<Rightarrow> (st, evs, Inr result))))))
      | _ \<Rightarrow> (st, [], Inl (TypeError ''df must be a pandas DataFrame'')))"







section \<open>Example inputs\<close>

text \<open>Small concrete inputs on which the model is run.\<close>

text \<open>
  A coarse instance of the geometry library, for running the model: a point is within a
  polygon when it lies strictly inside the polygon's bounding box, a buffer widens the
  bounding box by the distance, and the reprojection between EPSG 4326 and EPSG 3763
  scales both coordinates by \<open>100000\<close> (other pairs of codes leave them as they are).
\<close>

fun box_within :: "geometry \<Rightarrow> geometry \<Rightarrow> bool" where
  "box_within (Point x y) (Polygon vs) =
     (vs \<noteq> [] \<and> least (map fst vs) < x \<and> x < greatest (map fst vs) \<and>
      least (map snd vs) < y \<and> y < greatest (map snd vs))"
| "box_within _ _ = False"

fun box_buffer :: "geometry \<Rightarrow> rat \<Rightarrow> geometry" where
  "box_buffer (Polygon vs) d =
     Polygon [(least (map fst vs) - d, least (map snd vs) - d),
              (greatest (map fst vs) + d, least (map snd vs) - d),
              (greatest (map fst vs) + d, greatest (map snd vs) + d),
              (least (map fst vs) - d, greatest (map snd vs) + d)]"
| "box_buffer g d = g"

fun scale_geometry :: "rat \<Rightarrow> geometry \<Rightarrow> geometry" where
  "scale_geometry k (Point x y) = Point (k * x) (k * y)"
| "scale_geometry k (LineString vs) = LineString (map (\<lambda>(x, y). (k * x, k * y)) vs)"
| "scale_geometry k (Polygon vs) = Polygon (map (\<lambda>(x, y). (k * x, k * y)) vs)"
| "scale_geometry k (MultiPolygon ps) = MultiPolygon (map (map (\<lambda>(x, y). (k * x, k * y))) ps)"
| "scale_geometry k (OtherGeometry kind) = OtherGeometry kind"
| "scale_geometry k NoGeometry = NoGeometry"

definition box_transform :: "nat \<Rightarrow> nat \<Rightarrow> geometry \<Rightarrow> geometry" where
  "box_transform src dst g =
     (if src = 4326 \<and> dst = 3763 then scale_geometry 100000 g
      else if src = 3763 \<and> dst = 4326 then scale_geometry (1 / 100000) g
      else g)"

definition box_lib :: geolib where
  "box_lib = \<lparr>lib_within = box_within, lib_buffer = box_buffer, lib_transform = box_transform\<rparr>"

text \<open>Three stations (one inside the basin, one outside it, one on its boundary) and a
  square basin \<open>B1\<close>, in EPSG 4326 and in EPSG 4269.\<close>

definition three_stations :: "nat \<Rightarrow> geodataframe" where
  "three_stations epsg =
     \<lparr>frame = \<lparr>index = range_index 3, columns = [(''station_id'', [Str ''A'', Str ''B'', Str ''C''])]\<rparr>,
      geoms = [Point 1 1, Point 3 1, Point 2 1],
      crs = Some epsg\<rparr>"

definition two_basins :: "nat \<Rightarrow> geodataframe" where
  "two_basins epsg =
     \<lparr>frame = \<lparr>index = range_index 2, columns = [(''Station_ID'', [Str ''B0'', Str ''B1''])]\<rparr>,
      geoms = [Polygon [(10, 10), (11, 10), (11, 11)], Polygon [(0, 0), (2, 0), (2, 2), (0, 2)]],
      crs = Some epsg\<rparr>"

definition mixed_points :: geodataframe where
  "mixed_points =
     \<lparr>frame = \<lparr>index = range_index 2, columns = [(''station_id'', [Str ''A'', Str ''B''])]\<rparr>,
      geoms = [Point 1 1, LineString [(0, 0), (1, 1)]],
      crs = Some 4326\<rparr>"

text \<open>A dataset of two times and three stations: station 0 has every observation,
  station 1 none, station 2 one of two.\<close>

definition swe_values :: "nat list \<Rightarrow> rat option" where
  "swe_values idx =
     (if idx = [0, 0] then Some 5 else if idx = [1, 0] then Some 7
      else if idx = [0, 2] then Some 3 else None)"

definition swe_var :: data_array where
  "swe_var = \<lparr>da_dims = [''time'', ''station_id''], da_shape = [2, 3],
              da_vals = swe_values, da_coord = False\<rparr>"

definition swe_dataset :: dataset where
  "swe_dataset =
     \<lparr>ds_dims = [(''time'', 2), (''station_id'', 3)],
      ds_labels = [(''time'', [Stamp 0, Stamp 86400000000000]),
                   (''station_id'', [Str ''A'', Str ''B'', Str ''C''])],
      ds_vars = [(''swe'', swe_var)]\<rparr>"

text \<open>The example of the spec: a table with rows of the stations \<open>A\<close> and \<open>B\<close>, and
  a coordinate-update table with an entry for \<open>A\<close> only.\<close>

definition ab_frame :: dataframe where
  "ab_frame =
     \<lparr>index = range_index 3,
      columns = [(''station_id'', [Str ''A'', Str ''B'', Str ''A'']),
                 (''lat'', [Num 50, Num 49, Num 50]),
                 (''lon'', [Num (- 113), Num (- 112), Num (- 113)]),
                 (''swe'', [Num 10, NaN, Num 12])]\<rparr>"

definition a_update :: dataframe where
  "a_update =
     \<lparr>index = range_index 1,
      columns = [(''station_id'', [Str ''A'']), (''New_Lat'', [Num 51]), (''New_Lon'', [Num (- 114)])]\<rparr>"





definition one_table :: "dataframe \<Rightarrow> store" where
  "one_table df = (\<lambda>_. OtherObj)(0 := DataFrame df)"

definition swe_frame :: dataframe where
  "swe_frame =
     \<lparr>index = MultiIndex [(''time'', [Stamp 0, Stamp 0]), (''station_id'', [Str ''A'', Str ''B''])],
      columns = [(''swe'', [Num 10, NaN])]\<rparr>"

definition no_station_frame :: dataframe where
  "no_station_frame = \<lparr>index = range_index 2, columns = [(''swe'', [Num 10, NaN])]\<rparr>"

definition empty_dataset :: dataset where
  "empty_dataset = \<lparr>ds_dims = [], ds_labels = [], ds_vars = []\<rparr>"

section \<open>Properties\<close>

lemma map_of_assign_column_same: "map_of (assign_column c xs cols) c = Some xs"
  by (induction cols) auto

lemma map_of_assign_column_other: "d \<noteq> c \<Longrightarrow> map_of (assign_column c xs cols) d = map_of cols d"
  by (induction cols) auto

lemma nrows_set_scalar: "nrows (set_scalar c v df) = nrows df"
  by (simp add: set_scalar_def set_column_def nrows_def)

lemma get_column_set_scalar_same:
  "get_column (set_scalar c v df) c = Inr (replicate (nrows df) v)"
  by (simp add: get_column_def set_scalar_def set_column_def map_of_assign_column_same)

lemma get_column_set_scalar_other:
  "d \<noteq> c \<Longrightarrow> get_column (set_scalar c v df) d = get_column df d"
  by (simp add: get_column_def set_scalar_def set_column_def map_of_assign_column_other)

lemma range_index_simps:
  "range_index 1 = Index None [Num 0]"
  "range_index 2 = Index None [Num 0, Num 1]"
  "range_index 3 = Index None [Num 0, Num 1, Num 2]"
  "range_index 4 = Index None [Num 0, Num 1, Num 2, Num 3]"
  "range_index (Suc 0) = Index None [Num 0]"
  "range_index (Suc (Suc 0)) = Index None [Num 0, Num 1]"
  "range_index (Suc (Suc (Suc 0))) = Index None [Num 0, Num 1, Num 2]"
  "range_index (Suc (Suc (Suc (Suc 0)))) = Index None [Num 0, Num 1, Num 2, Num 3]"
  by (simp_all add: range_index_def numeral_eq_Suc)

lemma absent_column: "c \<notin> set (column_names df) \<Longrightarrow> get_column df c = Inl (KeyError c)"
proof -
  assume "c \<notin> set (column_names df)"
  then have "map_of (columns df) c = None"
    by (simp add: column_names_def map_of_eq_None_iff)
  then show ?thesis by (simp add: get_column_def)
qed

subsection \<open>Metadata columns of the preprocessors\<close>

lemma metadata_columns:
  "get_column (set_scalar ''units'' (Str ''mm'') (set_scalar ''data_source'' v df)) ''data_source''
     = Inr (replicate (nrows df) v)"
  "get_column (set_scalar ''units'' (Str ''mm'') (set_scalar ''data_source'' v df)) ''units''
     = Inr (replicate (nrows df) (Str ''mm''))"
  "nrows (set_scalar ''units'' (Str ''mm'') (set_scalar ''data_source'' v df)) = nrows df"
  by (simp_all add: get_column_set_scalar_same get_column_set_scalar_other nrows_set_scalar)

lemma preprocess_swe_result:
  assumes "preprocess_swe to_dataframe ds = (evs, Inr df)"
  shows "\<exists>df0. df = set_scalar ''units'' (Str ''mm'') (set_scalar ''data_source'' (Str ''SWE'') df0)"
  using assms
  by (auto simp: preprocess_swe_def Let_def reraise_def split: sum.splits if_splits)

lemma preprocess_precip_result:
  assumes "preprocess_precip to_dataframe parse ds = (evs, Inr df)"
  shows "\<exists>df0. df = set_scalar ''units'' (Str ''mm'')
                       (set_scalar ''data_source'' (Str ''Precipitation'') df0)"
  using assms
  by (auto simp: preprocess_precip_def Let_def reraise_def split: sum.splits if_splits option.splits)

text \<open>
  C7. Whenever \<open>preprocess_swe\<close> returns a table, its \<open>data_source\<close> column holds
  the string SWE in every row and its \<open>units\<close> column holds the string mm in every
  row; whenever \<open>preprocess_precip\<close> returns a table, the same holds with the string
  Precipitation for \<open>data_source\<close>. This holds whatever the library's conversion of
  the dataset to a table returns.
\<close>

theorem preprocess_metadata:
  "(preprocess_swe to_dataframe ds = (evs, Inr df) \<longrightarrow>
      get_column df ''data_source'' = Inr (replicate (nrows df) (Str ''SWE'')) \<and>
      get_column df ''units'' = Inr (replicate (nrows df) (Str ''mm''))) \<and>
   (preprocess_precip to_dataframe parse ds' = (evs', Inr df') \<longrightarrow>
      get_column df' ''data_source'' = Inr (replicate (nrows df') (Str ''Precipitation'')) \<and>
      get_column df' ''units'' = Inr (replicate (nrows df') (Str ''mm'')))"
proof (intro conjI impI)
  assume "preprocess_swe to_dataframe ds = (evs, Inr df)"
  then obtain df0 where d: "df = set_scalar ''units'' (Str ''mm'') (set_scalar ''data_source'' (Str ''SWE'') df0)"
    using preprocess_swe_result by blast
  show "get_column df ''data_source'' = Inr (replicate (nrows df) (Str ''SWE''))"
    unfolding d by (simp only: metadata_columns)
  show "get_column df ''units'' = Inr (replicate (nrows df) (Str ''mm''))"
    unfolding d by (simp only: metadata_columns)
next
  assume "preprocess_precip to_dataframe parse ds' = (evs', Inr df')"
  then obtain df0 where d: "df' = set_scalar ''units'' (Str ''mm'')
                                    (set_scalar ''data_source'' (Str ''Precipitation'') df0)"
    using preprocess_precip_result by blast
  show "get_column df' ''data_source'' = Inr (replicate (nrows df') (Str ''Precipitation''))"
    unfolding d by (simp only: metadata_columns)
  show "get_column df' ''units'' = Inr (replicate (nrows df') (Str ''mm''))"
    unfolding d by (simp only: metadata_columns)
qed

lemma swe_frame_run:
  "preprocess_swe (\<lambda>_. Inr swe_frame) empty_dataset =
     ([Update 1 ''Converting to DataFrame'', Update 1 ''Resetting index'',
       Update 1 ''Adding metadata'', Update 1 ''Finalizing preprocessing''],
      Inr \<lparr>index = range_index 2,
           columns = [(''time'', [Stamp 0, Stamp 0]), (''station_id'', [Str ''A'', Str ''B'']),
                      (''swe'', [Num 10, NaN]), (''data_source'', [Str ''SWE'', Str ''SWE'']),
                      (''units'', [Str ''mm'', Str ''mm''])]\<rparr>)"
  by (simp add: preprocess_swe_def swe_frame_def is_multiindex_def reset_index_def
      index_levels_def column_names_def nrows_def set_scalar_def set_column_def range_index_simps)

lemma precip_frame_run:
  "preprocess_precip (\<lambda>_. Inr swe_frame) (\<lambda>_. Inl (ValueError [])) empty_dataset =
     ([Update 1 ''Converting to DataFrame'', Update 1 ''Resetting index'',
       Update 1 ''Converting time format'', Update 1 ''Adding metadata''],
      Inr \<lparr>index = range_index 2,
           columns = [(''time'', [Stamp 0, Stamp 0]), (''station_id'', [Str ''A'', Str ''B'']),
                      (''swe'', [Num 10, NaN]),
                      (''data_source'', [Str ''Precipitation'', Str ''Precipitation'']),
                      (''units'', [Str ''mm'', Str ''mm''])]\<rparr>)"
  by (simp add: preprocess_precip_def swe_frame_def is_multiindex_def reset_index_def
      index_levels_def column_names_def nrows_def set_scalar_def set_column_def range_index_simps)

theorem preprocess_metadata_witness:
  "preprocess_swe (\<lambda>_. Inr swe_frame) empty_dataset =
     ([Update 1 ''Converting to DataFrame'', Update 1 ''Resetting index'',
       Update 1 ''Adding metadata'', Update 1 ''Finalizing preprocessing''],
      Inr \<lparr>index = range_index 2,
           columns = [(''time'', [Stamp 0, Stamp 0]), (''station_id'', [Str ''A'', Str ''B'']),
                      (''swe'', [Num 10, NaN]), (''data_source'', [Str ''SWE'', Str ''SWE'']),
                      (''units'', [Str ''mm'', Str ''mm''])]\<rparr>) \<and>
   get_column \<lparr>index = range_index 2,
           columns = [(''time'', [Stamp 0, Stamp 0]), (''station_id'', [Str ''A'', Str ''B'']),
                      (''swe'', [Num 10, NaN]), (''data_source'', [Str ''SWE'', Str ''SWE'']),
                      (''units'', [Str ''mm'', Str ''mm''])]\<rparr> ''data_source''
     = Inr [Str ''SWE'', Str ''SWE''] \<and>
   preprocess_precip (\<lambda>_. Inr swe_frame) (\<lambda>_. Inl (ValueError [])) empty_dataset =
     ([Update 1 ''Converting to DataFrame'', Update 1 ''Resetting index'',
       Update 1 ''Converting time format'', Update 1 ''Adding metadata''],
      Inr \<lparr>index = range_index 2,
           columns = [(''time'', [Stamp 0, Stamp 0]), (''station_id'', [Str ''A'', Str ''B'']),
                      (''swe'', [Num 10, NaN]),
                      (''data_source'', [Str ''Precipitation'', Str ''Precipitation'']),
                      (''units'', [Str ''mm'', Str ''mm''])]\<rparr>) \<and>
   get_column \<lparr>index = range_index 2,
           columns = [(''time'', [Stamp 0, Stamp 0]), (''station_id'', [Str ''A'', Str ''B'']),
                      (''swe'', [Num 10, NaN]),
                      (''data_source'', [Str ''Precipitation'', Str ''Precipitation'']),
                      (''units'', [Str ''mm'', Str ''mm''])]\<rparr> ''units''
     = Inr [Str ''mm'', Str ''mm'']"
  using preprocess_metadata [THEN conjunct1, rule_format, OF swe_frame_run]
        preprocess_metadata [THEN conjunct2, rule_format, OF precip_frame_run]
        swe_frame_run precip_frame_run
  by (simp add: nrows_def range_index_simps)

subsection \<open>Filtering a table that has no station column\<close>

text \<open>
  C4. A table without a \<open>station_id\<close> column makes \<open>filter_stations\<close> fail: the
  \<^verbatim>\<open>ValueError\<close> of the column check is raised right after the first progress
  update, before any row is selected, the handler closes the tracker and re-raises it as
  a \<^verbatim>\<open>RuntimeError\<close> that carries the message of the check, and no table is returned.
  The outcome depends neither on the list of stations nor on the library.
\<close>

theorem filter_stations_missing_column:
  "''station_id'' \<notin> set (column_names df) \<Longrightarrow>
   filter_stations sel (DataFrame df) stations_list =
     ([Update 1 ''Validating input data'', Close],
      Inl (RuntimeError
        ''Error during station filtering: DataFrame does not contain 'station_id' column''))"
  by (simp add: filter_stations_def absent_column reraise_def)

theorem filter_stations_missing_column_witness:
  "''station_id'' \<notin> set (column_names no_station_frame) \<and>
   filter_stations (\<lambda>ds ids. Inr ds) (DataFrame no_station_frame) [Str ''A''] =
     ([Update 1 ''Validating input data'', Close],
      Inl (RuntimeError
        ''Error during station filtering: DataFrame does not contain 'station_id' column''))"
proof -
  have h: "''station_id'' \<notin> set (column_names no_station_frame)"
    by (simp add: column_names_def no_station_frame_def)
  show ?thesis
    using h filter_stations_missing_column [OF h, of "\<lambda>ds ids. Inr ds" "[Str ''A'']"] by simp
qed

subsection \<open>Row selection\<close>

lemma keep_map_filter: "keep (map P xs) xs = filter P xs"
  by (induction xs) (auto simp: keep_def)

subsection \<open>Spatial join: the checks come first\<close>

lemma spatial_join_points:
  "\<not> list_all is_point (geoms points_gdf) \<Longrightarrow>
   spatial_join sjoin points_gdf polygons_gdf how op =
     ([Update 1 ''Validating input geometries'', Close],
      Inl (RuntimeError (''Error during spatial join: '' @
                         ''points_gdf must contain only Point geometries'')))"
  by (simp add: spatial_join_def reraise_def)

lemma spatial_join_polygons:
  "list_all is_point (geoms points_gdf) \<Longrightarrow> \<not> list_all is_polygon (geoms polygons_gdf) \<Longrightarrow>
   spatial_join sjoin points_gdf polygons_gdf how op =
     ([Update 1 ''Validating input geometries'', Close],
      Inl (RuntimeError (''Error during spatial join: '' @
                         ''polygons_gdf must contain only Polygon or MultiPolygon geometries'')))"
  by (simp add: spatial_join_def reraise_def)

lemma spatial_join_crs:
  "list_all is_point (geoms points_gdf) \<Longrightarrow> list_all is_polygon (geoms polygons_gdf) \<Longrightarrow>
   crs points_gdf \<noteq> crs polygons_gdf \<Longrightarrow>
   spatial_join sjoin points_gdf polygons_gdf how op =
     ([Update 1 ''Validating input geometries'', Update 1 ''Checking coordinate systems'', Close],
      Inl (RuntimeError (''Error during spatial join: '' @
                         ''Coordinate systems of points and polygons must match'')))"
  by (simp add: spatial_join_def reraise_def)

text \<open>
  C8. If the first collection holds a geometry that is not a point, or the second one a
  geometry that is neither a polygon nor a multipolygon, or the two CRS tags differ, then
  \<open>spatial_join\<close> fails with the module's \<^verbatim>\<open>RuntimeError\<close>. The update that
  announces the join is not among the tracker's calls, so the failure comes before the
  join runs, and the outcome is the same whatever the library's join would return: no
  joined table is produced.
\<close>

theorem spatial_join_rejects:
  assumes "(\<exists>g\<in>set (geoms points_gdf). \<not> is_point g) \<or>
           (\<exists>g\<in>set (geoms polygons_gdf). \<not> is_polygon g) \<or>
           crs points_gdf \<noteq> crs polygons_gdf"
  shows "\<exists>evs msg.
           spatial_join sjoin points_gdf polygons_gdf how op =
             (evs, Inl (RuntimeError (''Error during spatial join: '' @ msg))) \<and>
           Update 1 ''Executing spatial join'' \<notin> set evs \<and>
           spatial_join sjoin' points_gdf polygons_gdf how op =
             spatial_join sjoin points_gdf polygons_gdf how op"
proof -
  consider (points) "\<not> list_all is_point (geoms points_gdf)"
    | (polygons) "list_all is_point (geoms points_gdf)" "\<not> list_all is_polygon (geoms polygons_gdf)"
    | (crs) "list_all is_point (geoms points_gdf)" "list_all is_polygon (geoms polygons_gdf)"
        "crs points_gdf \<noteq> crs polygons_gdf"
    using assms by (auto simp: list_all_iff)
  then show ?thesis
  proof cases
    case points
    show ?thesis
      by (simp add: spatial_join_points [OF points])
  next
    case polygons
    show ?thesis
      by (simp add: spatial_join_polygons [OF polygons])
  next
    case crs
    show ?thesis
      by (simp add: spatial_join_crs [OF crs])
  qed
qed

theorem spatial_join_rejects_witness:
  "((\<exists>g\<in>set (geoms mixed_points). \<not> is_point g) \<or>
    (\<exists>g\<in>set (geoms (two_basins 4326)). \<not> is_polygon g) \<or>
    crs mixed_points \<noteq> crs (two_basins 4326)) \<and>
   (\<exists>evs msg.
      spatial_join (\<lambda>a b c d. Inr a) mixed_points (two_basins 4326) ''inner'' ''intersects'' =
        (evs, Inl (RuntimeError (''Error during spatial join: '' @ msg))) \<and>
      Update 1 ''Executing spatial join'' \<notin> set evs \<and>
      spatial_join (\<lambda>a b c d. Inl (KeyError [])) mixed_points (two_basins 4326) ''inner'' ''intersects'' =
        spatial_join (\<lambda>a b c d. Inr a) mixed_points (two_basins 4326) ''inner'' ''intersects'') \<and>
   ((\<exists>g\<in>set (geoms (three_stations 4269)). \<not> is_point g) \<or>
    (\<exists>g\<in>set (geoms (two_basins 4326)). \<not> is_polygon g) \<or>
    crs (three_stations 4269) \<noteq> crs (two_basins 4326)) \<and>
   (\<exists>evs msg.
      spatial_join (\<lambda>a b c d. Inr a) (three_stations 4269) (two_basins 4326) ''inner'' ''intersects'' =
        (evs, Inl (RuntimeError (''Error during spatial join: '' @ msg))) \<and>
      Update 1 ''Executing spatial join'' \<notin> set evs \<and>
      spatial_join (\<lambda>a b c d. Inl (KeyError [])) (three_stations 4269) (two_basins 4326) ''inner'' ''intersects'' =
        spatial_join (\<lambda>a b c d. Inr a) (three_stations 4269) (two_basins 4326) ''inner'' ''intersects'')"
proof -
  have h1: "(\<exists>g\<in>set (geoms mixed_points). \<not> is_point g) \<or>
    (\<exists>g\<in>set (geoms (two_basins 4326)). \<not> is_polygon g) \<or>
    crs mixed_points \<noteq> crs (two_basins 4326)"
    by (simp add: mixed_points_def)
  have h2: "(\<exists>g\<in>set (geoms (three_stations 4269)). \<not> is_point g) \<or>
    (\<exists>g\<in>set (geoms (two_basins 4326)). \<not> is_polygon g) \<or>
    crs (three_stations 4269) \<noteq> crs (two_basins 4326)"
    by (simp add: three_stations_def two_basins_def)
  show ?thesis
    using h1 h2 spatial_join_rejects [OF h1] spatial_join_rejects [OF h2] by blast
qed

subsection \<open>Stations of a basin\<close>

lemmas extract_example_defs =
  extract_stations_in_basin_def buffered_mask_def basin_geometry_def basin_rows_def
  three_stations_def two_basins_def box_lib_def get_column_def gdf_select_def gdf_assign_def
  select_rows_def select_index_def keep_def cell_eq_def range_index_simps set_scalar_def set_column_def
  nrows_def to_crs_def series_to_crs_def buffer_series_def box_transform_def least_def greatest_def

lemma extract_unbuffered_run:
  "extract_stations_in_basin box_lib (three_stations 4326) (two_basins 4326) ''B1'' 0 =
     ([Update 1 ''Extracting basin geometry'', Update 1 ''Processing buffer'',
       Update 1 ''Extracting stations''],
      Inr (\<lparr>frame = \<lparr>index = Index None [Num 0],
                       columns = [(''station_id'', [Str ''A'']), (''basin'', [Str ''B1''])]\<rparr>,
            geoms = [Point 1 1], crs = Some 4326\<rparr>,
           IntZero))"
  by (simp add: extract_example_defs)

lemma extract_buffered_run:
  "extract_stations_in_basin box_lib (three_stations 4326) (two_basins 4326) ''B1'' 1 =
     ([Update 1 ''Extracting basin geometry'', Update 1 ''Processing buffer'',
       Update 1 ''Extracting stations''],
      Inr (\<lparr>frame = \<lparr>index = Index None [Num 0, Num 2],
                       columns = [(''station_id'', [Str ''A'', Str ''C'']),
                                  (''basin'', [Str ''B1'', Str ''B1''])]\<rparr>,
            geoms = [Point 1 1, Point 2 1], crs = Some 4326\<rparr>,
           BufferSeries
             \<lparr>gs_geoms = [Polygon [(- (1 / 100), - (1 / 100)), (201 / 100, - (1 / 100)),
                                   (201 / 100, 201 / 100), (- (1 / 100), 201 / 100)]],
              gs_crs = Some 4326\<rparr>))"
  by (simp add: extract_example_defs)

text \<open>
  C2. Whenever \<open>extract_stations_in_basin\<close> returns: with \<open>buffer_km = 0\<close> the second
  element of the result is the integer zero, and with \<open>buffer_km > 0\<close> it is a buffer
  (a series of geometries) and not zero.
\<close>

theorem extract_second_element:
  assumes "extract_stations_in_basin lib stations basin_shapefile basin_id buffer_km =
             (evs, Inr (found, second))"
  shows "(buffer_km = 0 \<longrightarrow> second = IntZero) \<and>
         (0 < buffer_km \<longrightarrow> second \<noteq> IntZero \<and> (\<exists>gs. second = BufferSeries gs))"
  using assms
  by (auto simp: extract_stations_in_basin_def buffered_mask_def reraise_def Let_def
           split: sum.splits if_splits list.splits prod.splits)

theorem extract_second_element_witness:
  "extract_stations_in_basin box_lib (three_stations 4326) (two_basins 4326) ''B1'' 0 =
     ([Update 1 ''Extracting basin geometry'', Update 1 ''Processing buffer'',
       Update 1 ''Extracting stations''],
      Inr (\<lparr>frame = \<lparr>index = Index None [Num 0],
                       columns = [(''station_id'', [Str ''A'']), (''basin'', [Str ''B1''])]\<rparr>,
            geoms = [Point 1 1], crs = Some 4326\<rparr>,
           IntZero)) \<and>
   extract_stations_in_basin box_lib (three_stations 4326) (two_basins 4326) ''B1'' 1 =
     ([Update 1 ''Extracting basin geometry'', Update 1 ''Processing buffer'',
       Update 1 ''Extracting stations''],
      Inr (\<lparr>frame = \<lparr>index = Index None [Num 0, Num 2],
                       columns = [(''station_id'', [Str ''A'', Str ''C'']),
                                  (''basin'', [Str ''B1'', Str ''B1''])]\<rparr>,
            geoms = [Point 1 1, Point 2 1], crs = Some 4326\<rparr>,
           BufferSeries
             \<lparr>gs_geoms = [Polygon [(- (1 / 100), - (1 / 100)), (201 / 100, - (1 / 100)),
                                   (201 / 100, 201 / 100), (- (1 / 100), 201 / 100)]],
              gs_crs = Some 4326\<rparr>)) \<and>
   BufferSeries
     \<lparr>gs_geoms = [Polygon [(- (1 / 100), - (1 / 100)), (201 / 100, - (1 / 100)),
                           (201 / 100, 201 / 100), (- (1 / 100), 201 / 100)]],
      gs_crs = Some 4326\<rparr> \<noteq> IntZero"
  using extract_second_element [OF extract_unbuffered_run]
        extract_second_element [OF extract_buffered_run]
        extract_unbuffered_run extract_buffered_run
  by simp

lemma basin_rows_crs: "basin_rows basin_shapefile basin_id = Inr rows \<Longrightarrow> crs rows = crs basin_shapefile"
  by (auto simp: basin_rows_def gdf_select_def split: sum.splits)

lemma extract_rows:
  assumes "extract_stations_in_basin lib stations basin_shapefile basin_id buffer_km =
             (evs, Inr (found, second))"
  shows "\<exists>basin_geom.
           basin_geometry basin_shapefile basin_id = Inr basin_geom \<and>
           (if 0 < buffer_km
            then \<exists>cb cs.
                   crs basin_shapefile = Some cb \<and> crs stations = Some cs \<and>
                   found = gdf_assign ''basin'' (Str basin_id)
                             (gdf_select
                                (map (\<lambda>g. lib_within lib (lib_transform lib cs 3763 g)
                                        (lib_buffer lib (lib_transform lib cb 3763 basin_geom)
                                           (buffer_km * 1000)))
                                     (geoms stations))
                                stations)
            else found = gdf_assign ''basin'' (Str basin_id)
                           (gdf_select (map (\<lambda>g. lib_within lib g basin_geom) (geoms stations))
                              stations))"
proof -
  obtain basin_geom where bg: "basin_geometry basin_shapefile basin_id = Inr basin_geom"
    using assms
    by (auto simp: extract_stations_in_basin_def reraise_def Let_def split: sum.splits)
  show ?thesis
  proof (cases "0 < buffer_km")
    case False
    then show ?thesis
      using assms bg
      by (auto simp: extract_stations_in_basin_def reraise_def Let_def split: sum.splits)
  next
    case True
    obtain rows where rows: "basin_rows basin_shapefile basin_id = Inr rows"
      using bg by (auto simp: basin_geometry_def split: sum.splits)
    obtain rest where first: "geoms rows = basin_geom # rest"
      using bg rows by (auto simp: basin_geometry_def split: list.splits)
    note bc = basin_rows_crs [OF rows]
    show ?thesis
      using assms bg True rows first bc
      by (auto simp: extract_stations_in_basin_def buffered_mask_def reraise_def Let_def
                     to_crs_def series_to_crs_def buffer_series_def comp_def
               split: sum.splits option.splits)
  qed
qed

lemma geoms_selected:
  "geoms (gdf_assign c v (gdf_select (map P (geoms gdf)) gdf)) = filter P (geoms gdf)"
  by (simp add: gdf_assign_def gdf_select_def keep_map_filter)

text \<open>
  C9. Whenever \<open>extract_stations_in_basin\<close> returns, the stations of the result are
  exactly the input stations whose geometry satisfies the library's \<open>within\<close>
  predicate against the test polygon, each annotated with the basin identifier: with
  \<open>buffer_km > 0\<close> the station, reprojected to EPSG 3763, is tested against the first
  matching basin polygon, reprojected to EPSG 3763 and buffered by \<open>buffer_km * 1000\<close>;
  otherwise the station is tested against the first matching basin polygon as it is. So
  every station of the result is within the polygon and no station outside it appears.
\<close>

theorem extract_stations_within:
  assumes "extract_stations_in_basin lib stations basin_shapefile basin_id buffer_km =
             (evs, Inr (found, second))"
  shows "\<exists>basin_geom.
           basin_geometry basin_shapefile basin_id = Inr basin_geom \<and>
           (if 0 < buffer_km
            then \<exists>cb cs.
                   crs basin_shapefile = Some cb \<and> crs stations = Some cs \<and>
                   geoms found =
                     filter (\<lambda>g. lib_within lib (lib_transform lib cs 3763 g)
                                  (lib_buffer lib (lib_transform lib cb 3763 basin_geom)
                                     (buffer_km * 1000)))
                            (geoms stations)
            else geoms found = filter (\<lambda>g. lib_within lib g basin_geom) (geoms stations))"
proof -
  obtain basin_geom where bg: "basin_geometry basin_shapefile basin_id = Inr basin_geom"
    and rows: "if 0 < buffer_km
            then \<exists>cb cs.
                   crs basin_shapefile = Some cb \<and> crs stations = Some cs \<and>
                   found = gdf_assign ''basin'' (Str basin_id)
                             (gdf_select
                                (map (\<lambda>g. lib_within lib (lib_transform lib cs 3763 g)
                                        (lib_buffer lib (lib_transform lib cb 3763 basin_geom)
                                           (buffer_km * 1000)))
                                     (geoms stations))
                                stations)
            else found = gdf_assign ''basin'' (Str basin_id)
                           (gdf_select (map (\<lambda>g. lib_within lib g basin_geom) (geoms stations))
                              stations)"
    using extract_rows [OF assms] by blast
  show ?thesis
  proof (cases "0 < buffer_km")
    case True
    then obtain cb cs where "crs basin_shapefile = Some cb" "crs stations = Some cs"
      "found = gdf_assign ''basin'' (Str basin_id)
                 (gdf_select
                    (map (\<lambda>g. lib_within lib (lib_transform lib cs 3763 g)
                            (lib_buffer lib (lib_transform lib cb 3763 basin_geom)
                               (buffer_km * 1000)))
                         (geoms stations))
                    stations)"
      using rows by auto
    then show ?thesis
      using bg True by (simp add: geoms_selected)
  next
    case False
    then show ?thesis
      using bg rows by (simp add: geoms_selected)
  qed
qed

theorem extract_stations_within_witness:
  "extract_stations_in_basin box_lib (three_stations 4326) (two_basins 4326) ''B1'' 1 =
     ([Update 1 ''Extracting basin geometry'', Update 1 ''Processing buffer'',
       Update 1 ''Extracting stations''],
      Inr (\<lparr>frame = \<lparr>index = Index None [Num 0, Num 2],
                       columns = [(''station_id'', [Str ''A'', Str ''C'']),
                                  (''basin'', [Str ''B1'', Str ''B1''])]\<rparr>,
            geoms = [Point 1 1, Point 2 1], crs = Some 4326\<rparr>,
           BufferSeries
             \<lparr>gs_geoms = [Polygon [(- (1 / 100), - (1 / 100)), (201 / 100, - (1 / 100)),
                                   (201 / 100, 201 / 100), (- (1 / 100), 201 / 100)]],
              gs_crs = Some 4326\<rparr>)) \<and>
   basin_geometry (two_basins 4326) ''B1'' = Inr (Polygon [(0, 0), (2, 0), (2, 2), (0, 2)]) \<and>
   [Point 1 1, Point 2 1] =
     filter (\<lambda>g. lib_within box_lib (lib_transform box_lib 4326 3763 g)
                  (lib_buffer box_lib
                     (lib_transform box_lib 4326 3763 (Polygon [(0, 0), (2, 0), (2, 2), (0, 2)]))
                     (1 * 1000)))
            (geoms (three_stations 4326))"
proof -
  have bg: "basin_geometry (two_basins 4326) ''B1'' = Inr (Polygon [(0, 0), (2, 0), (2, 2), (0, 2)])"
    by (simp add: extract_example_defs)
  show ?thesis
    using extract_stations_within [OF extract_buffered_run] extract_buffered_run bg
    by (simp add: three_stations_def two_basins_def)
qed

text \<open>
  C6. The buffer that \<open>extract_stations_in_basin\<close> returns always carries the CRS tag
  EPSG 4326, because the source reprojects it with that constant code. It is the CRS
  the inputs carried only when they were in EPSG 4326: for inputs in EPSG 4269 the
  returned buffer is tagged 4326.
\<close>

theorem extract_buffer_crs:
  assumes "extract_stations_in_basin lib stations basin_shapefile basin_id buffer_km =
             (evs, Inr (found, BufferSeries gs))"
  shows "gs_crs gs = Some 4326"
  using assms
  by (auto simp: extract_stations_in_basin_def buffered_mask_def reraise_def Let_def series_to_crs_def
           split: sum.splits if_splits list.splits prod.splits option.splits)

lemma extract_nad83_run:
  "extract_stations_in_basin box_lib (three_stations 4269) (two_basins 4269) ''B1'' 1 =
     ([Update 1 ''Extracting basin geometry'', Update 1 ''Processing buffer'',
       Update 1 ''Extracting stations''],
      Inr (\<lparr>frame = \<lparr>index = Index None [Num 0, Num 1, Num 2],
                       columns = [(''station_id'', [Str ''A'', Str ''B'', Str ''C'']),
                                  (''basin'', [Str ''B1'', Str ''B1'', Str ''B1''])]\<rparr>,
            geoms = [Point 1 1, Point 3 1, Point 2 1], crs = Some 4269\<rparr>,
           BufferSeries
             \<lparr>gs_geoms = [Polygon [(- (1 / 100), - (1 / 100)), (501 / 50000, - (1 / 100)),
                                   (501 / 50000, 501 / 50000), (- (1 / 100), 501 / 50000)]],
              gs_crs = Some 4326\<rparr>))"
  by (simp add: extract_example_defs)

theorem extract_buffer_crs_witness:
  "extract_stations_in_basin box_lib (three_stations 4269) (two_basins 4269) ''B1'' 1 =
     ([Update 1 ''Extracting basin geometry'', Update 1 ''Processing buffer'',
       Update 1 ''Extracting stations''],
      Inr (\<lparr>frame = \<lparr>index = Index None [Num 0, Num 1, Num 2],
                       columns = [(''station_id'', [Str ''A'', Str ''B'', Str ''C'']),
                                  (''basin'', [Str ''B1'', Str ''B1'', Str ''B1''])]\<rparr>,
            geoms = [Point 1 1, Point 3 1, Point 2 1], crs = Some 4269\<rparr>,
           BufferSeries
             \<lparr>gs_geoms = [Polygon [(- (1 / 100), - (1 / 100)), (501 / 50000, - (1 / 100)),
                                   (501 / 50000, 501 / 50000), (- (1 / 100), 501 / 50000)]],
              gs_crs = Some 4326\<rparr>)) \<and>
   crs (three_stations 4269) = Some 4269 \<and> crs (two_basins 4269) = Some 4269 \<and>
   gs_crs \<lparr>gs_geoms = [Polygon [(- (1 / 100), - (1 / 100)), (501 / 50000, - (1 / 100)),
                                (501 / 50000, 501 / 50000), (- (1 / 100), 501 / 50000)]],
           gs_crs = Some 4326\<rparr> = Some 4326"
  using extract_buffer_crs [OF extract_nad83_run] extract_nad83_run
  by (simp add: three_stations_def two_basins_def)

subsection \<open>Data availability\<close>

lemma map_of_count_vars:
  "map_of vars name = Some v \<Longrightarrow> \<not> da_coord v \<Longrightarrow>
   map_of (count_vars d vars) name = Some (count_along d v)"
  by (induction vars) (auto split: if_splits)

lemma map_of_map_data_vars:
  "map_of (ds_vars ds) name = Some v \<Longrightarrow> \<not> da_coord v \<Longrightarrow>
   map_of (ds_vars (map_data_vars f ds)) name = Some (v\<lparr>da_vals := (\<lambda>idx. f (da_vals v idx))\<rparr>)"
proof -
  have "map_of (map (\<lambda>(n, v). (n, if da_coord v then v else v\<lparr>da_vals := (\<lambda>idx. f (da_vals v idx))\<rparr>)) vars) name
          = map_option (\<lambda>v. if da_coord v then v else v\<lparr>da_vals := (\<lambda>idx. f (da_vals v idx))\<rparr>) (map_of vars name)"
    for vars :: "(string \<times> data_array) list"
    by (induction vars) auto
  then show "map_of (ds_vars ds) name = Some v \<Longrightarrow> \<not> da_coord v \<Longrightarrow> ?thesis"
    by (simp add: map_data_vars_def)
qed

lemma count_along_coord: "da_coord (count_along d v) = da_coord v"
  by (simp add: count_along_def split: option.splits)

lemma count_along_vals:
  "position d (da_dims v) = Some p \<Longrightarrow>
   da_vals (count_along d v) idx =
     Some (of_nat (length (filter (\<lambda>k. da_vals v (insert_at p k idx) \<noteq> None) [0..<da_shape v ! p])))"
  by (simp add: count_along_def)

lemma assess_returns:
  assumes "map_of (ds_dims ds) time_dim = Some T"
  shows "assess_data_availability ds time_dim station_dim =
           ([Update 1 ''Counting non-NaN values'', Update 1 ''Calculating total time points'',
             Update 1 ''Calculating availability percentages''],
            Inr (map_data_vars (percentage T)
                   \<lparr>ds_dims = filter (\<lambda>(n, _). n \<noteq> time_dim) (ds_dims ds),
                    ds_labels = filter (\<lambda>(n, _). n \<noteq> time_dim) (ds_labels ds),
                    ds_vars = count_vars time_dim (ds_vars ds)\<rparr>))"
proof -
  have "time_dim \<in> set (map fst (ds_dims ds))"
    using assms by (metis map_of_eq_None_iff option.distinct(1) set_map)
  then show ?thesis
    using assms by (simp add: assess_data_availability_def ds_count_def ds_len_def)
qed

text \<open>
  C5. Let the time dimension of the dataset have \<open>T > 0\<close> points and let a data
  variable extend over it with that size. Then \<open>assess_data_availability\<close> returns,
  and at every position of the retained dimensions (the station and any other one) the
  availability of the variable is exactly \<open>100\<close> when none of the \<open>T\<close> observations at
  that position is missing, and exactly \<open>0\<close> when all of them are missing.
\<close>

theorem availability_full_and_empty:
  assumes "map_of (ds_dims ds) time_dim = Some T" and "0 < T"
    and "map_of (ds_vars ds) name = Some v" and "\<not> da_coord v"
    and "position time_dim (da_dims v) = Some p" and "da_shape v ! p = T"
  shows "\<exists>evs avail a.
           assess_data_availability ds time_dim station_dim = (evs, Inr avail) \<and>
           map_of (ds_vars avail) name = Some a \<and>
           ((\<forall>k<T. da_vals v (insert_at p k idx) \<noteq> None) \<longrightarrow> da_vals a idx = Some 100) \<and>
           ((\<forall>k<T. da_vals v (insert_at p k idx) = None) \<longrightarrow> da_vals a idx = Some 0)"
proof -
  let ?counts = "\<lparr>ds_dims = filter (\<lambda>(n, _). n \<noteq> time_dim) (ds_dims ds),
                  ds_labels = filter (\<lambda>(n, _). n \<noteq> time_dim) (ds_labels ds),
                  ds_vars = count_vars time_dim (ds_vars ds)\<rparr>"
  let ?c = "count_along time_dim v"
  let ?a = "?c\<lparr>da_vals := (\<lambda>idx. percentage T (da_vals ?c idx))\<rparr>"
  have c: "map_of (ds_vars ?counts) name = Some ?c"
    using assms(3,4) by (simp add: map_of_count_vars)
  have a: "map_of (ds_vars (map_data_vars (percentage T) ?counts)) name = Some ?a"
    using map_of_map_data_vars [OF c] assms(4) by (simp add: count_along_coord)
  have v: "da_vals ?a idx =
             percentage T (Some (of_nat (length
               (filter (\<lambda>k. da_vals v (insert_at p k idx) \<noteq> None) [0..<T]))))"
    using assms(5,6) by (simp add: count_along_vals)
  have full: "da_vals ?a idx = Some 100" if "\<forall>k<T. da_vals v (insert_at p k idx) \<noteq> None"
  proof -
    have "filter (\<lambda>k. da_vals v (insert_at p k idx) \<noteq> None) [0..<T] = [0..<T]"
      using that by (simp add: filter_id_conv)
    then show ?thesis
      using v assms(2) by (simp add: percentage_def)
  qed
  have none: "da_vals ?a idx = Some 0" if "\<forall>k<T. da_vals v (insert_at p k idx) = None"
  proof -
    have "filter (\<lambda>k. da_vals v (insert_at p k idx) \<noteq> None) [0..<T] = []"
      using that by (simp add: filter_empty_conv)
    then show ?thesis
      using v assms(2) by (simp add: percentage_def)
  qed
  show ?thesis
    using assess_returns [OF assms(1)] a full none by blast
qed

theorem availability_full_and_empty_witness:
  "map_of (ds_dims swe_dataset) ''time'' = Some 2 \<and> (0::nat) < 2 \<and>
   map_of (ds_vars swe_dataset) ''swe'' = Some swe_var \<and> \<not> da_coord swe_var \<and>
   position ''time'' (da_dims swe_var) = Some 0 \<and> da_shape swe_var ! 0 = 2 \<and>
   da_vals swe_var (insert_at 0 0 [0]) \<noteq> None \<and> da_vals swe_var (insert_at 0 1 [0]) \<noteq> None \<and>
   da_vals swe_var (insert_at 0 0 [1]) = None \<and> da_vals swe_var (insert_at 0 1 [1]) = None \<and>
   (\<exists>evs avail a.
      assess_data_availability swe_dataset ''time'' ''station_id'' = (evs, Inr avail) \<and>
      map_of (ds_vars avail) ''swe'' = Some a \<and>
      da_vals a [0] = Some 100 \<and> da_vals a [1] = Some 0)"
proof -
  have h1: "map_of (ds_dims swe_dataset) ''time'' = Some 2"
    and h3: "map_of (ds_vars swe_dataset) ''swe'' = Some swe_var"
    by (simp_all add: swe_dataset_def)
  have h2: "(0::nat) < 2" by simp
  have h4: "\<not> da_coord swe_var"
    and h5: "position ''time'' (da_dims swe_var) = Some 0"
    and h6: "da_shape swe_var ! 0 = 2"
    by (simp_all add: swe_var_def)
  have full: "da_vals swe_var (insert_at 0 k [0]) \<noteq> None" if "k < 2" for k
  proof -
    from that have "k = 0 \<or> k = 1" by auto
    then show ?thesis by (auto simp: swe_var_def swe_values_def insert_at_def)
  qed
  have none: "da_vals swe_var (insert_at 0 k [1]) = None" for k
    by (simp add: swe_var_def swe_values_def insert_at_def)
  obtain evs avail a where r: "assess_data_availability swe_dataset ''time'' ''station_id'' = (evs, Inr avail)"
    and a: "map_of (ds_vars avail) ''swe'' = Some a" and a0: "da_vals a [0] = Some 100"
    using availability_full_and_empty [OF h1 h2 h3 h4 h5 h6, where idx = "[0]" and station_dim = "''station_id''"] full by blast
  obtain evs' avail' a' where r': "assess_data_availability swe_dataset ''time'' ''station_id'' = (evs', Inr avail')"
    and a': "map_of (ds_vars avail') ''swe'' = Some a'" and a1: "da_vals a' [1] = Some 0"
    using availability_full_and_empty [OF h1 h2 h3 h4 h5 h6, where idx = "[1]" and station_dim = "''station_id''"] none by blast
  have "a' = a" using r r' a a' by simp
  then show ?thesis
    using h1 h2 h3 h4 h5 h6 full [of 0] full [of 1] none r a a0 a1 by auto
qed

subsection \<open>Hourly to daily: the time column of the caller's table\<close>




lemma get_column_set_column_other: "d \<noteq> c \<Longrightarrow> get_column (set_column c xs df) d = get_column df d"
  by (simp add: get_column_def set_column_def map_of_assign_column_other)







subsection \<open>Coordinate update\<close>

lemma index_loc_set: "index (loc_set msk c v df) = index df"
  by (simp add: loc_set_def set_column_def split: option.splits)

lemma get_column_loc_set_same:
  "get_column df c = Inr xs \<Longrightarrow>
   get_column (loc_set msk c v df) c = Inr (map (\<lambda>(x, m). if m then v else x) (zip xs msk))"
  by (auto simp: loc_set_def get_column_def set_column_def map_of_assign_column_same
           split: option.splits)

lemma get_column_loc_set_other:
  "d \<noteq> c \<Longrightarrow> get_column (loc_set msk c v df) d = get_column df d"
  by (auto simp: loc_set_def get_column_def set_column_def map_of_assign_column_other
           split: option.splits)

lemma coord_lookup_cell_eq: "coord_lookup m sid = Some p \<Longrightarrow> cell_eq c sid \<longleftrightarrow> c = sid"
  by (auto simp: coord_lookup_def cell_eq_def split: if_splits)

lemma patch_step:
  assumes "length xs = length ids"
  shows "patched m pick rest ids
           (case coord_lookup m sid of
              None \<Rightarrow> xs
            | Some p \<Rightarrow> map (\<lambda>(x, b). if b then pick p else x) (zip xs (map (\<lambda>c. cell_eq c sid) ids)))
         = patched m pick (sid # rest) ids xs"
  using assms
proof (induction xs ids rule: list_induct2)
  case Nil
  then show ?case by (simp add: patched_def split: option.splits)
next
  case (Cons x xs c ids)
  then show ?case
    by (auto simp: patched_def coord_lookup_cell_eq split: option.splits)
qed

lemma update_station_effect:
  assumes "get_column data ''station_id'' = Inr ids"
    and "get_column data ''lat'' = Inr xs" and "get_column data ''lon'' = Inr ys"
  shows "\<exists>data'.
           update_station m sid data = Inr data' \<and>
           index data' = index data \<and>
           get_column data' ''lat'' =
             Inr (case coord_lookup m sid of
                    None \<Rightarrow> xs
                  | Some p \<Rightarrow> map (\<lambda>(x, b). if b then fst p else x) (zip xs (map (\<lambda>c. cell_eq c sid) ids))) \<and>
           get_column data' ''lon'' =
             Inr (case coord_lookup m sid of
                    None \<Rightarrow> ys
                  | Some p \<Rightarrow> map (\<lambda>(x, b). if b then snd p else x) (zip ys (map (\<lambda>c. cell_eq c sid) ids))) \<and>
           (\<forall>c. c \<noteq> ''lat'' \<and> c \<noteq> ''lon'' \<longrightarrow> get_column data' c = get_column data c)"
proof (cases "coord_lookup m sid")
  case None
  then show ?thesis using assms by (simp add: update_station_def)
next
  case (Some p)
  let ?msk = "map (\<lambda>c. cell_eq c sid) ids"
  let ?d1 = "loc_set ?msk ''lat'' (fst p) data"
  let ?d2 = "loc_set ?msk ''lon'' (snd p) ?d1"
  have r: "update_station m sid data = Inr ?d2"
    using Some assms(1) by (cases p) (simp add: update_station_def Let_def)
  have "get_column ?d1 ''lat'' = Inr (map (\<lambda>(x, b). if b then fst p else x) (zip xs ?msk))"
    using assms(2) by (rule get_column_loc_set_same)
  then have lat: "get_column ?d2 ''lat'' = Inr (map (\<lambda>(x, b). if b then fst p else x) (zip xs ?msk))"
    by (simp only: get_column_loc_set_other [of "''lat''" "''lon''"] list.inject char.inject simp_thms)
  have "get_column ?d1 ''lon'' = Inr ys"
    using assms(3) by (simp add: get_column_loc_set_other)
  then have lon: "get_column ?d2 ''lon'' = Inr (map (\<lambda>(x, b). if b then snd p else x) (zip ys ?msk))"
    by (rule get_column_loc_set_same)
  have other: "\<forall>c. c \<noteq> ''lat'' \<and> c \<noteq> ''lon'' \<longrightarrow> get_column ?d2 c = get_column data c"
    by (simp add: get_column_loc_set_other)
  have ix: "index ?d2 = index data"
    by (simp add: index_loc_set)
  show ?thesis
    unfolding Some option.case
    using r lat lon other ix by blast
qed

lemma update_loop_effect:
  assumes "get_column data ''station_id'' = Inr ids"
    and "get_column data ''lat'' = Inr xs" and "get_column data ''lon'' = Inr ys"
    and "length xs = length ids" and "length ys = length ids"
  shows "\<exists>final evs.
           update_loop m n i stations data = (final, evs, None) \<and>
           index final = index data \<and>
           get_column final ''lat'' = Inr (patched m fst stations ids xs) \<and>
           get_column final ''lon'' = Inr (patched m snd stations ids ys) \<and>
           (\<forall>c. c \<noteq> ''lat'' \<and> c \<noteq> ''lon'' \<longrightarrow> get_column final c = get_column data c)"
  using assms
proof (induction stations arbitrary: data xs ys i)
  case Nil
  have "patched m pick [] ids zs = zs" if "length zs = length ids" for pick zs
    using that by (induction zs ids rule: list_induct2) (simp_all add: patched_def)
  then show ?case using Nil by simp
next
  case (Cons sid rest)
  let ?xs = "case coord_lookup m sid of
               None \<Rightarrow> xs
             | Some p \<Rightarrow> map (\<lambda>(x, b). if b then fst p else x) (zip xs (map (\<lambda>c. cell_eq c sid) ids))"
  let ?ys = "case coord_lookup m sid of
               None \<Rightarrow> ys
             | Some p \<Rightarrow> map (\<lambda>(x, b). if b then snd p else x) (zip ys (map (\<lambda>c. cell_eq c sid) ids))"
  obtain data' where s: "update_station m sid data = Inr data'"
    and ix: "index data' = index data"
    and lat: "get_column data' ''lat'' = Inr ?xs" and lon: "get_column data' ''lon'' = Inr ?ys"
    and other: "\<forall>c. c \<noteq> ''lat'' \<and> c \<noteq> ''lon'' \<longrightarrow> get_column data' c = get_column data c"
    using update_station_effect [OF Cons.prems(1,2,3)] by blast
  have sid': "get_column data' ''station_id'' = Inr ids"
    using other Cons.prems(1) by simp
  have lx: "length ?xs = length ids" and ly: "length ?ys = length ids"
    using Cons.prems(4,5) by (simp_all split: option.splits)
  obtain final evs where l: "update_loop m n (Suc i) rest data' = (final, evs, None)"
    and fi: "index final = index data'"
    and fl: "get_column final ''lat'' = Inr (patched m fst rest ids ?xs)"
    and fo: "get_column final ''lon'' = Inr (patched m snd rest ids ?ys)"
    and fother: "\<forall>c. c \<noteq> ''lat'' \<and> c \<noteq> ''lon'' \<longrightarrow> get_column final c = get_column data' c"
    using Cons.IH [OF sid' lat lon lx ly] by blast
  have "patched m fst rest ids ?xs = patched m fst (sid # rest) ids xs"
    using patch_step [OF Cons.prems(4)] by simp
  moreover have "patched m snd rest ids ?ys = patched m snd (sid # rest) ids ys"
    using patch_step [OF Cons.prems(5)] by simp
  ultimately show ?case
    using s l fi ix fl fo fother other by simp
qed


lemma set_unique: "set (unique xs) = set xs"
  by (simp add: unique_def)

lemma patched_nth:
  assumes "length xs = length ids" and "i < length ids" and "set ids \<subseteq> set stations"
  shows "patched m pick stations ids xs ! i =
           (case coord_lookup m (ids ! i) of Some p \<Rightarrow> pick p | None \<Rightarrow> xs ! i)"
proof -
  have "ids ! i \<in> set stations"
    using assms(2,3) by auto
  then show ?thesis
    using assms(1,2) by (simp add: patched_def)
qed

lemma length_patched: "length xs = length ids \<Longrightarrow> length (patched m pick stations ids xs) = length ids"
  by (simp add: patched_def)

lemma coord_lookup_present:
  assumes "distinct cids" and "length las = length cids" and "length los = length cids"
    and "j < length cids" and "cell_eq c (cids ! j)"
  shows "coord_lookup (zip cids (zip las los)) c = Some (las ! j, los ! j)"
proof -
  have c: "c = cids ! j" "c \<noteq> NaN" "c \<noteq> NaT"
    using assms(5) by (auto simp: cell_eq_def)
  have "map_of (zip cids (zip las los)) (cids ! j) = Some (zip las los ! j)"
    using assms(1,2,3,4) by (intro map_of_zip_nth) simp_all
  then show ?thesis
    using c assms(2,3,4) by (simp add: coord_lookup_def)
qed

lemma coord_lookup_absent:
  assumes "length las = length cids" and "length los = length cids"
    and "\<forall>j<length cids. \<not> cell_eq c (cids ! j)"
  shows "coord_lookup (zip cids (zip las los)) c = None"
proof (cases "c = NaN \<or> c = NaT")
  case True
  then show ?thesis by (auto simp: coord_lookup_def)
next
  case False
  have "c \<notin> set cids"
  proof
    assume "c \<in> set cids"
    then obtain j where "j < length cids" "cids ! j = c"
      by (auto simp: in_set_conv_nth)
    then show False
      using assms(3) False by (auto simp: cell_eq_def)
  qed
  then have "c \<notin> fst ` set (zip cids (zip las los))"
    by (auto dest: set_zip_leftD)
  then have "map_of (zip cids (zip las los)) c = None"
    by (simp add: map_of_eq_None_iff)
  then show ?thesis by (simp add: coord_lookup_def)
qed

lemma coord_map_of_wellformed:
  assumes "get_column coordinates_df id_col = Inr cids"
    and "get_column coordinates_df lat_col = Inr las"
    and "get_column coordinates_df lon_col = Inr los"
    and "distinct cids" and "lat_col \<noteq> id_col" and "lon_col \<noteq> id_col"
  shows "coord_map_of coordinates_df id_col lat_col lon_col = Inr (zip cids (zip las los))"
  using assms by (simp add: coord_map_of_def)

text \<open>
  C3. Let the store hold a table with the columns \<open>station_id\<close>, \<open>lat\<close> and \<open>lon\<close>,
  and let the coordinate-update table have its identifier, latitude and longitude
  columns, with distinct identifiers. Then \<open>update_coordinates\<close> returns the reference
  it was given, and the store differs from the one before at that reference only: the
  table there has, in every row whose station id equals an identifier of the update
  table, the latitude and longitude of that entry, and in every row whose station id
  equals none of them, the latitude and longitude it had. The index and all other
  columns are as before.
\<close>

theorem update_coordinates_in_place:
  assumes "st data = DataFrame df"
    and "get_column df ''station_id'' = Inr ids"
    and "get_column df ''lat'' = Inr lats" and "get_column df ''lon'' = Inr lons"
    and "length lats = length ids" and "length lons = length ids"
    and "get_column coordinates_df id_col = Inr cids"
    and "get_column coordinates_df lat_col = Inr new_lats"
    and "get_column coordinates_df lon_col = Inr new_lons"
    and "length new_lats = length cids" and "length new_lons = length cids"
    and "distinct cids" and "lat_col \<noteq> id_col" and "lon_col \<noteq> id_col"
  shows "\<exists>evs final lats' lons'.
           update_coordinates st data coordinates_df id_col lat_col lon_col =
             (st(data := DataFrame final), evs, Inr data) \<and>
           index final = index df \<and>
           (\<forall>c. c \<noteq> ''lat'' \<and> c \<noteq> ''lon'' \<longrightarrow> get_column final c = get_column df c) \<and>
           get_column final ''lat'' = Inr lats' \<and> get_column final ''lon'' = Inr lons' \<and>
           length lats' = length ids \<and> length lons' = length ids \<and>
           (\<forall>i<length ids.
              (\<forall>j<length cids. cell_eq (ids ! i) (cids ! j) \<longrightarrow>
                 lats' ! i = new_lats ! j \<and> lons' ! i = new_lons ! j) \<and>
              ((\<forall>j<length cids. \<not> cell_eq (ids ! i) (cids ! j)) \<longrightarrow>
                 lats' ! i = lats ! i \<and> lons' ! i = lons ! i))"
proof -
  let ?m = "zip cids (zip new_lats new_lons)"
  let ?S = "unique ids"
  have m: "coord_map_of coordinates_df id_col lat_col lon_col = Inr ?m"
    using assms(7,8,9,12,13,14) by (rule coord_map_of_wellformed)
  obtain final evs where l: "update_loop ?m (length ?S) 0 ?S df = (final, evs, None)"
    and ix: "index final = index df"
    and la: "get_column final ''lat'' = Inr (patched ?m fst ?S ids lats)"
    and lo: "get_column final ''lon'' = Inr (patched ?m snd ?S ids lons)"
    and other: "\<forall>c. c \<noteq> ''lat'' \<and> c \<noteq> ''lon'' \<longrightarrow> get_column final c = get_column df c"
    using update_loop_effect [OF assms(2,3,4,5,6)] by blast
  have run: "update_coordinates st data coordinates_df id_col lat_col lon_col =
               (st(data := DataFrame final), evs, Inr data)"
    using assms(1,2) m l by (simp add: update_coordinates_def Let_def)
  have sub: "set ids \<subseteq> set ?S"
    by (simp add: set_unique)
  have rows: "(\<forall>j<length cids. cell_eq (ids ! i) (cids ! j) \<longrightarrow>
                 patched ?m fst ?S ids lats ! i = new_lats ! j \<and>
                 patched ?m snd ?S ids lons ! i = new_lons ! j) \<and>
              ((\<forall>j<length cids. \<not> cell_eq (ids ! i) (cids ! j)) \<longrightarrow>
                 patched ?m fst ?S ids lats ! i = lats ! i \<and>
                 patched ?m snd ?S ids lons ! i = lons ! i)"
    if i: "i < length ids" for i
  proof (intro conjI allI impI)
    fix j assume j: "j < length cids" "cell_eq (ids ! i) (cids ! j)"
    have f: "coord_lookup ?m (ids ! i) = Some (new_lats ! j, new_lons ! j)"
      using assms(12,10,11) j by (rule coord_lookup_present)
    show "patched ?m fst ?S ids lats ! i = new_lats ! j"
      using patched_nth [OF assms(5) i sub, of ?m fst] f by simp
    show "patched ?m snd ?S ids lons ! i = new_lons ! j"
      using patched_nth [OF assms(6) i sub, of ?m snd] f by simp
  next
    assume a: "\<forall>j<length cids. \<not> cell_eq (ids ! i) (cids ! j)"
    have f: "coord_lookup ?m (ids ! i) = None"
      using assms(10,11) a by (rule coord_lookup_absent)
    show "patched ?m fst ?S ids lats ! i = lats ! i"
      using patched_nth [OF assms(5) i sub, of ?m fst] f by simp
    show "patched ?m snd ?S ids lons ! i = lons ! i"
      using patched_nth [OF assms(6) i sub, of ?m snd] f by simp
  qed
  show ?thesis
  proof (intro exI conjI)
    show "update_coordinates st data coordinates_df id_col lat_col lon_col =
            (st(data := DataFrame final), evs, Inr data)"
      by (rule run)
    show "index final = index df" by (rule ix)
    show "\<forall>c. c \<noteq> ''lat'' \<and> c \<noteq> ''lon'' \<longrightarrow> get_column final c = get_column df c"
      by (rule other)
    show "get_column final ''lat'' = Inr (patched ?m fst ?S ids lats)" by (rule la)
    show "get_column final ''lon'' = Inr (patched ?m snd ?S ids lons)" by (rule lo)
    show "length (patched ?m fst ?S ids lats) = length ids"
      using assms(5) by (rule length_patched)
    show "length (patched ?m snd ?S ids lons) = length ids"
      using assms(6) by (rule length_patched)
    show "\<forall>i<length ids.
              (\<forall>j<length cids. cell_eq (ids ! i) (cids ! j) \<longrightarrow>
                 patched ?m fst ?S ids lats ! i = new_lats ! j \<and>
                 patched ?m snd ?S ids lons ! i = new_lons ! j) \<and>
              ((\<forall>j<length cids. \<not> cell_eq (ids ! i) (cids ! j)) \<longrightarrow>
                 patched ?m fst ?S ids lats ! i = lats ! i \<and>
                 patched ?m snd ?S ids lons ! i = lons ! i)"
      using rows by blast
  qed
qed



theorem update_coordinates_in_place_witness:
  "one_table ab_frame 0 = DataFrame ab_frame \<and>
   get_column ab_frame ''station_id'' = Inr [Str ''A'', Str ''B'', Str ''A''] \<and>
   get_column ab_frame ''lat'' = Inr [Num 50, Num 49, Num 50] \<and>
   get_column ab_frame ''lon'' = Inr [Num (- 113), Num (- 112), Num (- 113)] \<and>
   get_column a_update ''station_id'' = Inr [Str ''A''] \<and>
   get_column a_update ''New_Lat'' = Inr [Num 51] \<and>
   get_column a_update ''New_Lon'' = Inr [Num (- 114)] \<and>
   distinct [Str ''A''] \<and> ''New_Lat'' \<noteq> ''station_id'' \<and> ''New_Lon'' \<noteq> ''station_id'' \<and>
   (\<exists>evs final lats' lons'.
      update_coordinates (one_table ab_frame) 0 a_update ''station_id'' ''New_Lat'' ''New_Lon'' =
        ((one_table ab_frame)(0 := DataFrame final), evs, Inr 0) \<and>
      get_column final ''swe'' = Inr [Num 10, NaN, Num 12] \<and>
      get_column final ''lat'' = Inr lats' \<and> get_column final ''lon'' = Inr lons' \<and>
      lats' ! 0 = Num 51 \<and> lons' ! 0 = Num (- 114) \<and>
      lats' ! 1 = Num 49 \<and> lons' ! 1 = Num (- 112) \<and>
      lats' ! 2 = Num 51 \<and> lons' ! 2 = Num (- 114))"
proof -
  have h1: "one_table ab_frame 0 = DataFrame ab_frame"
    by (simp add: one_table_def)
  have h2: "get_column ab_frame ''station_id'' = Inr [Str ''A'', Str ''B'', Str ''A'']"
    and h3: "get_column ab_frame ''lat'' = Inr [Num 50, Num 49, Num 50]"
    and h4: "get_column ab_frame ''lon'' = Inr [Num (- 113), Num (- 112), Num (- 113)]"
    and swe: "get_column ab_frame ''swe'' = Inr [Num 10, NaN, Num 12]"
    by (simp_all add: get_column_def ab_frame_def)
  have h5: "length [Num 50, Num 49, Num 50] = length [Str ''A'', Str ''B'', Str ''A'']"
    and h6: "length [Num (- 113), Num (- 112), Num (- 113)] = length [Str ''A'', Str ''B'', Str ''A'']"
    by simp_all
  have h7: "get_column a_update ''station_id'' = Inr [Str ''A'']"
    and h8: "get_column a_update ''New_Lat'' = Inr [Num 51]"
    and h9: "get_column a_update ''New_Lon'' = Inr [Num (- 114)]"
    by (simp_all add: get_column_def a_update_def)
  have h10: "length [Num 51] = length [Str ''A'']" and h11: "length [Num (- 114)] = length [Str ''A'']"
    and h12: "distinct [Str ''A'']"
    and h13: "''New_Lat'' \<noteq> ''station_id''" and h14: "''New_Lon'' \<noteq> ''station_id''"
    by simp_all
  obtain evs final lats' lons' where
    run: "update_coordinates (one_table ab_frame) 0 a_update ''station_id'' ''New_Lat'' ''New_Lon'' =
            ((one_table ab_frame)(0 := DataFrame final), evs, Inr 0)"
    and other: "\<forall>c. c \<noteq> ''lat'' \<and> c \<noteq> ''lon'' \<longrightarrow> get_column final c = get_column ab_frame c"
    and la: "get_column final ''lat'' = Inr lats'" and lo: "get_column final ''lon'' = Inr lons'"
    and rows: "\<forall>i<length [Str ''A'', Str ''B'', Str ''A''].
              (\<forall>j<length [Str ''A'']. cell_eq ([Str ''A'', Str ''B'', Str ''A''] ! i) ([Str ''A''] ! j) \<longrightarrow>
                 lats' ! i = [Num 51] ! j \<and> lons' ! i = [Num (- 114)] ! j) \<and>
              ((\<forall>j<length [Str ''A'']. \<not> cell_eq ([Str ''A'', Str ''B'', Str ''A''] ! i) ([Str ''A''] ! j)) \<longrightarrow>
                 lats' ! i = [Num 50, Num 49, Num 50] ! i \<and>
                 lons' ! i = [Num (- 113), Num (- 112), Num (- 113)] ! i)"
    using update_coordinates_in_place
      [where st = "one_table ab_frame" and data = 0, OF h1 h2 h3 h4 h5 h6 h7 h8 h9 h10 h11 h12 h13 h14]
    by (elim exE conjE) (rule that)
  have r0: "lats' ! 0 = Num 51 \<and> lons' ! 0 = Num (- 114)"
    using rows [rule_format, of 0, THEN conjunct1, rule_format, of 0] by (simp add: cell_eq_def)
  have r1: "lats' ! 1 = Num 49 \<and> lons' ! 1 = Num (- 112)"
    using rows [rule_format, of 1, THEN conjunct2] by (simp add: cell_eq_def)
  have r2: "lats' ! 2 = Num 51 \<and> lons' ! 2 = Num (- 114)"
    using rows [rule_format, of 2, THEN conjunct1, rule_format, of 0] by (simp add: cell_eq_def)
  have s: "get_column final ''swe'' = Inr [Num 10, NaN, Num 12]"
    using other swe by simp
  show ?thesis
    using h1 h2 h3 h4 h7 h8 h9 h12 h13 h14 run s la lo r0 r1 r2 by blast
qed



subsection \<open>Hourly to daily: the rows of a station\<close>


























text \<open>A table without rows has no station: nothing is collected, and the concatenation
  of no tables raises.\<close>

lemma convert_no_rows:
  assumes "st df = DataFrame table"
    and "get_column table time_col = Inr []" and "get_column table ''station_id'' = Inr []"
    and "time_col \<noteq> ''station_id''"
  shows "snd (convert_hourly_to_daily parse fmean st df value_col time_col) =
           ([Close],
            Inl (RuntimeError
                   ''Error during hourly to daily conversion: No objects to concatenate''))"
  using assms
  by (simp add: convert_hourly_to_daily_def Let_def get_column_set_column_other unique_def
      concat_frames_def)

subsection \<open>Hourly to daily: in the words of the input table\<close>



lemma least_le_greatest: "xs \<noteq> [] \<Longrightarrow> least xs \<le> greatest (xs :: int list)"
proof -
  have l: "foldr min xs a \<le> a" and g: "a \<le> foldr max xs a" for a :: int
    by (induction xs) (simp_all add: min.coboundedI2 max.coboundedI2)
  show "xs \<noteq> [] \<Longrightarrow> ?thesis"
    using l [of "hd xs"] g [of "hd xs"] by (simp add: least_def greatest_def)
qed









end
